theory Spec2Isabelle
  imports Complex_Main
begin

section \<open>Data model: rectangles, windows, displays, the window pool\<close>

text \<open>
  An Electron \<open>Rectangle\<close> has integer fields. Intermediate JavaScript numbers
  (halves of widths, centres) are modelled as rationals; on integer inputs of screen
  magnitude every such value is an integer or a half-integer, which a double holds exactly.
\<close>

record rectangle =
  rect_x :: int
  rect_y :: int
  rect_width :: int
  rect_height :: int

text \<open>
  The attributes of a \<open>BrowserWindow\<close> that the window code reads or writes.
  Every method of a destroyed window except \<open>isDestroyed\<close> throws.
\<close>

record browser_window =
  w_destroyed :: bool
  w_bounds :: rectangle
  w_visible :: bool
  w_focused :: bool
  w_opacity :: rat
  w_alwaysOnTop :: bool
  w_ignoreMouseEvents :: bool
  w_lockedByButton :: bool

datatype js_error =
    NullDeref            \<comment> \<open>TypeError: property read on \<open>null\<close>\<close>
  | ObjectDestroyed      \<comment> \<open>TypeError: method call on a destroyed window\<close>

record display =
  display_id :: int
  workArea :: rectangle

text \<open>The \<open>screen\<close> module of Electron, as far as the layout code calls it.\<close>

record screen =
  getPrimaryDisplay :: display
  getAllDisplays :: "display list"
  getDisplayNearestPoint :: "rat \<Rightarrow> rat \<Rightarrow> display"

text \<open>The window pool is a JavaScript \<open>Map\<close> from window names to windows.\<close>

type_synonym window_pool = "(string \<times> browser_window) list"

definition pool_get :: "window_pool \<Rightarrow> string \<Rightarrow> browser_window option" where
  "pool_get pool name = map_of pool name"

definition isDestroyed :: "browser_window \<Rightarrow> bool" where
  "isDestroyed w = w_destroyed w"

definition getBounds :: "browser_window \<Rightarrow> js_error + rectangle" where
  "getBounds w = (if w_destroyed w then Inl ObjectDestroyed else Inr (w_bounds w))"

definition isVisible :: "browser_window \<Rightarrow> js_error + bool" where
  "isVisible w = (if w_destroyed w then Inl ObjectDestroyed else Inr (w_visible w))"

definition js_round :: "rat \<Rightarrow> int" where
  \<comment> \<open>\<open>Math.round\<close>: nearest integer, ties towards \<open>+\<infinity>\<close>\<close>
  "js_round q = \<lfloor>q + 1 / 2\<rfloor>"

section \<open>windowLayoutManager.js\<close>

record window_dimensions =
  dim_width :: int
  dim_minHeight :: "int option"
  dim_maxHeight :: "int option"
  dim_height :: "int option"

definition ORIGINAL_WINDOW_DIMENSIONS :: "string \<Rightarrow> window_dimensions option" where
  "ORIGINAL_WINDOW_DIMENSIONS name =
     (if name = ''ask'' then
        Some \<lparr>dim_width = 600, dim_minHeight = Some 100, dim_maxHeight = None, dim_height = None\<rparr>
      else if name = ''listen'' then
        Some \<lparr>dim_width = 400, dim_minHeight = Some 100, dim_maxHeight = None, dim_height = None\<rparr>
      else if name = ''settings'' then
        Some \<lparr>dim_width = 240, dim_minHeight = None, dim_maxHeight = Some 400, dim_height = None\<rparr>
      else if name = ''shortcut-settings'' then
        Some \<lparr>dim_width = 353, dim_minHeight = None, dim_maxHeight = None, dim_height = Some 720\<rparr>
      else None)"

definition getCurrentDisplay :: "screen \<Rightarrow> browser_window option \<Rightarrow> display" where
  "getCurrentDisplay scr window =
     (case window of
        None \<Rightarrow> getPrimaryDisplay scr
      | Some w \<Rightarrow>
          if isDestroyed w then getPrimaryDisplay scr
          else
            let windowBounds = w_bounds w in
            getDisplayNearestPoint scr
              (of_int (rect_x windowBounds) + of_int (rect_width windowBounds) / 2)
              (of_int (rect_y windowBounds) + of_int (rect_height windowBounds) / 2))"

definition truthy :: "int option \<Rightarrow> bool" where
  \<comment> \<open>a numeric property read in a condition: \<open>undefined\<close> and \<open>0\<close> are falsy\<close>
  "truthy v = (case v of None \<Rightarrow> False | Some n \<Rightarrow> n \<noteq> 0)"

definition constrainHeight :: "int \<Rightarrow> window_dimensions option \<Rightarrow> int" where
  "constrainHeight currentHeight originalConstraints =
     (case originalConstraints of
        None \<Rightarrow> currentHeight
      | Some c \<Rightarrow>
          if truthy (dim_minHeight c) \<and> currentHeight < the (dim_minHeight c)
            then the (dim_minHeight c)
          else if truthy (dim_maxHeight c) \<and> currentHeight > the (dim_maxHeight c)
            then the (dim_maxHeight c)
          else if truthy (dim_height c) then the (dim_height c)
          else currentHeight)"

definition getWindowDimensions :: "window_pool \<Rightarrow> string \<Rightarrow> rectangle option" where
  "getWindowDimensions pool windowName =
     (case pool_get pool windowName of
        None \<Rightarrow> None
      | Some win \<Rightarrow>
          if isDestroyed win then None
          else
            let original = ORIGINAL_WINDOW_DIMENSIONS windowName;
                current = w_bounds win
            in Some \<lparr>rect_x = rect_x current,
                     rect_y = rect_y current,
                     rect_width =
                       (case original of
                          None \<Rightarrow> rect_width current
                        | Some orig \<Rightarrow>
                            if dim_width orig \<noteq> 0 then dim_width orig else rect_width current),
                     rect_height = constrainHeight (rect_height current) original\<rparr>)"

datatype placement = above | below

record layout_strategy =
  primary :: placement

definition determineLayoutStrategy ::
  "rectangle \<Rightarrow> int \<Rightarrow> int \<Rightarrow> rat \<Rightarrow> rat \<Rightarrow> int \<Rightarrow> int \<Rightarrow> layout_strategy" where
  "determineLayoutStrategy headerBounds screenWidth screenHeight relativeX relativeY
       workAreaX workAreaY =
     (let spaceAbove = rect_y headerBounds - workAreaY;
          spaceBelow = screenHeight - (rect_y headerBounds - workAreaY + rect_height headerBounds)
      in \<lparr>primary = (if spaceAbove > spaceBelow then above else below)\<rparr>)"

record visibility =
  vis_ask :: bool
  vis_listen :: bool

type_synonym layout = "string \<rightharpoonup> rectangle"

definition PAD :: int where
  "PAD = 8"

definition place_window :: "layout_strategy \<Rightarrow> rectangle \<Rightarrow> int \<Rightarrow> rat \<Rightarrow> rectangle \<Rightarrow> rectangle" where
  \<comment> \<open>the object literal built for one window in either branch of the strategy test\<close>
  "place_window strategy headerBounds workAreaX xRel dims =
     (if primary strategy = above then
        let windowBottomAbs = rect_y headerBounds - PAD in
        \<lparr>rect_x = js_round (xRel + of_int workAreaX),
         rect_y = js_round (of_int (windowBottomAbs - rect_height dims)),
         rect_width = rect_width dims,
         rect_height = rect_height dims\<rparr>
      else
        let yAbs = rect_y headerBounds + rect_height headerBounds + PAD in
        \<lparr>rect_x = js_round (xRel + of_int workAreaX),
         rect_y = js_round (of_int yAbs),
         rect_width = rect_width dims,
         rect_height = rect_height dims\<rparr>)"

definition calculateFeatureWindowLayout ::
  "screen \<Rightarrow> window_pool \<Rightarrow> visibility \<Rightarrow> rectangle option \<Rightarrow> js_error + layout" where
  "calculateFeatureWindowLayout scr pool vis headerBoundsOverride =
     (let header = pool_get pool ''header'';
          headerBoundsE =
            (case headerBoundsOverride of
               Some b \<Rightarrow> Inr (Some b)
             | None \<Rightarrow>
                 (case header of
                    None \<Rightarrow> Inr None
                  | Some h \<Rightarrow> (case getBounds h of Inl e \<Rightarrow> Inl e | Inr b \<Rightarrow> Inr (Some b))))
      in case headerBoundsE of
           Inl e \<Rightarrow> Inl e
         | Inr None \<Rightarrow> Inr Map.empty
         | Inr (Some headerBounds) \<Rightarrow>
             let disp =
                   (case headerBoundsOverride of
                      Some b \<Rightarrow>
                        getDisplayNearestPoint scr
                          (of_int (rect_x headerBounds) + of_int (rect_width headerBounds) / 2)
                          (of_int (rect_y headerBounds) + of_int (rect_height headerBounds) / 2)
                    | None \<Rightarrow> getCurrentDisplay scr header);
                 screenWidth = rect_width (workArea disp);
                 screenHeight = rect_height (workArea disp);
                 workAreaX = rect_x (workArea disp);
                 workAreaY = rect_y (workArea disp);
                 askVis = (vis_ask vis \<and>
                           (case pool_get pool ''ask'' of None \<Rightarrow> False | Some w \<Rightarrow> \<not> isDestroyed w));
                 listenVis = (vis_listen vis \<and>
                           (case pool_get pool ''listen'' of None \<Rightarrow> False | Some w \<Rightarrow> \<not> isDestroyed w))
             in if \<not> askVis \<and> \<not> listenVis then Inr Map.empty
                else
                  let headerCenterXRel =
                        of_int (rect_x headerBounds - workAreaX) + of_int (rect_width headerBounds) / 2;
                      relativeX = headerCenterXRel / of_int screenWidth;
                      relativeY = of_int (rect_y headerBounds - workAreaY) / of_int screenHeight;
                      strategy = determineLayoutStrategy headerBounds screenWidth screenHeight
                                   relativeX relativeY workAreaX workAreaY;
                      askDimensions = (if askVis then getWindowDimensions pool ''ask'' else None);
                      listenDimensions = (if listenVis then getWindowDimensions pool ''listen'' else None)
                  in if askVis \<and> listenVis then
                       (case (askDimensions, listenDimensions) of
                          (Some askD, Some listenD) \<Rightarrow>
                            let askXRel = headerCenterXRel - of_int (rect_width askD) / 2;
                                listenXRel = askXRel - of_int (rect_width listenD) - of_int PAD
                            in Inr [''ask'' \<mapsto> place_window strategy headerBounds workAreaX askXRel askD,
                                    ''listen'' \<mapsto> place_window strategy headerBounds workAreaX listenXRel listenD]
                        | _ \<Rightarrow> Inl NullDeref)
                     else
                       let winName = (if askVis then ''ask'' else ''listen'');
                           winDimensions = (if askVis then askDimensions else listenDimensions)
                       in (case winDimensions of
                             None \<Rightarrow> Inl NullDeref
                           | Some winD \<Rightarrow>
                               let xRel = headerCenterXRel - of_int (rect_width winD) / 2
                               in Inr [winName \<mapsto> place_window strategy headerBounds workAreaX xRel winD]))"

definition calculateSettingsWindowPosition :: "window_pool \<Rightarrow> js_error + rectangle option" where
  "calculateSettingsWindowPosition pool =
     (case (pool_get pool ''header'', pool_get pool ''settings'') of
        (Some header, Some settings) \<Rightarrow>
          if isDestroyed header \<or> isDestroyed settings then Inr None
          else
            let headerBounds = w_bounds header in
            (case getWindowDimensions pool ''settings'' of
               None \<Rightarrow> Inl NullDeref
             | Some settingsDimensions \<Rightarrow>
                 let buttonPadding = 170;
                     x = rect_x headerBounds + rect_width headerBounds
                           - rect_width settingsDimensions + buttonPadding;
                     y = rect_y headerBounds + rect_height headerBounds + 5
                 in Inr (Some \<lparr>rect_x = js_round (of_int x),
                                rect_y = js_round (of_int y),
                                rect_width = rect_width settingsDimensions,
                                rect_height = rect_height settingsDimensions\<rparr>))
      | _ \<Rightarrow> Inr None)"

definition calculateShortcutSettingsWindowPosition :: "window_pool \<Rightarrow> js_error + rectangle option" where
  "calculateShortcutSettingsWindowPosition pool =
     (case (pool_get pool ''header'', pool_get pool ''shortcut-settings'') of
        (Some header, Some shortcutSettings) \<Rightarrow>
          (case getBounds header of
             Inl e \<Rightarrow> Inl e
           | Inr headerBounds \<Rightarrow>
               (case getWindowDimensions pool ''shortcut-settings'' of
                  None \<Rightarrow> Inl NullDeref
                | Some shortcutDimensions \<Rightarrow>
                    let newX = js_round (of_int (rect_x headerBounds)
                                 + of_int (rect_width headerBounds) / 2
                                 - of_int (rect_width shortcutDimensions) / 2);
                        newY = js_round (of_int (rect_y headerBounds))
                    in Inr (Some \<lparr>rect_x = newX,
                                   rect_y = newY,
                                   rect_width = rect_width shortcutDimensions,
                                   rect_height = rect_height shortcutDimensions\<rparr>)))
      | _ \<Rightarrow> Inr None)"


subsection \<open>Derived notions used to state properties of the layout\<close>

definition layout_header_bounds :: "window_pool \<Rightarrow> rectangle option \<Rightarrow> rectangle option" where
  \<comment> \<open>the header bounds a layout pass works from: the override, else the live header's bounds\<close>
  "layout_header_bounds pool headerBoundsOverride =
     (case headerBoundsOverride of
        Some b \<Rightarrow> Some b
      | None \<Rightarrow>
          (case pool_get pool ''header'' of
             None \<Rightarrow> None
           | Some h \<Rightarrow> if isDestroyed h then None else Some (w_bounds h)))"

definition layout_work_area :: "screen \<Rightarrow> rectangle \<Rightarrow> rectangle" where
  \<comment> \<open>the work area of the display nearest to the centre of the header bounds\<close>
  "layout_work_area scr hb =
     workArea (getDisplayNearestPoint scr
       (of_int (rect_x hb) + of_int (rect_width hb) / 2)
       (of_int (rect_y hb) + of_int (rect_height hb) / 2))"

definition feature_visible :: "window_pool \<Rightarrow> bool \<Rightarrow> string \<Rightarrow> bool" where
  \<comment> \<open>\<open>askVis\<close> and \<open>listenVis\<close>: requested, present in the pool and not destroyed\<close>
  "feature_visible pool requested name =
     (requested \<and> (case pool_get pool name of None \<Rightarrow> False | Some w \<Rightarrow> \<not> isDestroyed w))"

definition header_center_rel :: "rectangle \<Rightarrow> rectangle \<Rightarrow> rat" where
  "header_center_rel hb wa = of_int (rect_x hb - rect_x wa) + of_int (rect_width hb) / 2"

definition layout_strategy_of :: "rectangle \<Rightarrow> rectangle \<Rightarrow> layout_strategy" where
  \<comment> \<open>the call of \<open>determineLayoutStrategy\<close> made by a layout pass\<close>
  "layout_strategy_of hb wa =
     determineLayoutStrategy hb (rect_width wa) (rect_height wa)
       ((of_int (rect_x hb - rect_x wa) + of_int (rect_width hb) / 2) / of_int (rect_width wa))
       (of_int (rect_y hb - rect_y wa) / of_int (rect_height wa))
       (rect_x wa) (rect_y wa)"

definition spec_space_above :: "rectangle \<Rightarrow> rectangle \<Rightarrow> int" where
  \<comment> \<open>in the words of the specification: from the top of the work area to the top of the header\<close>
  "spec_space_above hb wa = rect_y hb - rect_y wa"

definition spec_space_below :: "rectangle \<Rightarrow> rectangle \<Rightarrow> int" where
  \<comment> \<open>in the words of the specification: from the bottom of the header to the bottom of the
      work area\<close>
  "spec_space_below hb wa = (rect_y wa + rect_height wa) - (rect_y hb + rect_height hb)"

definition rects_overlap :: "rectangle \<Rightarrow> rectangle \<Rightarrow> bool" where
  "rects_overlap a b =
     (rect_x a < rect_x b + rect_width b \<and> rect_x b < rect_x a + rect_width a \<and>
      rect_y a < rect_y b + rect_height b \<and> rect_y b < rect_y a + rect_height a)"

definition center2 :: "rectangle \<Rightarrow> int" where
  \<comment> \<open>twice the horizontal centre of a rectangle\<close>
  "center2 r = 2 * rect_x r + rect_width r"

definition span_center2 :: "rectangle \<Rightarrow> rectangle \<Rightarrow> int" where
  \<comment> \<open>twice the horizontal centre of the span from the left edge of \<open>l\<close> to the right edge
      of \<open>a\<close>\<close>
  "span_center2 l a = rect_x l + (rect_x a + rect_width a)"

section \<open>windowManager.js\<close>

text \<open>
  The motion engine (\<open>smoothMovementManager.js\<close>) is a collaborator of the window manager;
  the calls made to it are recorded in the state in the order they are made.
\<close>

datatype motion_call =
    Fade string rat bool                 \<comment> \<open>window, target opacity, hide on completion\<close>
  | AnimateLayout "string \<Rightarrow> rectangle option"
  | AnimateWindowPosition string rectangle

record wm_state =
  windowPool :: window_pool
  lastVisibleWindows :: "string list"
  shouldMaintainFocus :: bool
  aggressiveFocusMode :: bool
  settingsHideTimer :: bool
  focusRestoreTimer :: bool
  motion_calls :: "motion_call list"

text \<open>The module's initial values of the mutable globals, over a given pool.\<close>

definition initial_wm_state :: "window_pool \<Rightarrow> wm_state" where
  "initial_wm_state pool =
     \<lparr>windowPool = pool, lastVisibleWindows = [''header''], shouldMaintainFocus = True,
      aggressiveFocusMode = True, settingsHideTimer = False, focusRestoreTimer = False,
      motion_calls = []\<rparr>"

fun pool_modify :: "string \<Rightarrow> (browser_window \<Rightarrow> browser_window) \<Rightarrow> window_pool \<Rightarrow> window_pool" where
  \<comment> \<open>a method call that mutates the window object stored under a name\<close>
  "pool_modify name f [] = []"
| "pool_modify name f ((n, w) # rest) =
     (if n = name then (n, f w) # rest else (n, w) # pool_modify name f rest)"

definition hide :: "browser_window \<Rightarrow> browser_window" where
  "hide w = w\<lparr>w_visible := False\<rparr>"

definition showInactive :: "browser_window \<Rightarrow> browser_window" where
  "showInactive w = w\<lparr>w_visible := True\<rparr>"

definition applyAggressiveAlwaysOnTop :: "browser_window \<Rightarrow> browser_window" where
  \<comment> \<open>every platform branch calls \<open>setAlwaysOnTop(true, ...)\<close>\<close>
  "applyAggressiveAlwaysOnTop w = (if isDestroyed w then w else w\<lparr>w_alwaysOnTop := True\<rparr>)"

definition removeAggressiveAlwaysOnTop :: "browser_window \<Rightarrow> browser_window" where
  "removeAggressiveAlwaysOnTop w = (if isDestroyed w then w else w\<lparr>w_alwaysOnTop := False\<rparr>)"

definition disableClicks :: "string \<Rightarrow> window_pool \<Rightarrow> window_pool" where
  "disableClicks selectedWindow pool =
     map (\<lambda>(n, w). if n \<noteq> selectedWindow \<and> \<not> isDestroyed w
                    then (n, w\<lparr>w_ignoreMouseEvents := True\<rparr>) else (n, w)) pool"

definition restoreClicks :: "window_pool \<Rightarrow> window_pool" where
  "restoreClicks pool =
     map (\<lambda>(n, w). if \<not> isDestroyed w then (n, w\<lparr>w_ignoreMouseEvents := False\<rparr>) else (n, w)) pool"

definition visibility_settings :: "wm_state \<Rightarrow> bool \<Rightarrow> js_error + wm_state" where
  \<comment> \<open>the branch \<open>name === 'settings'\<close> of \<open>handleWindowVisibilityRequest\<close>\<close>
  "visibility_settings s shouldBeVisible =
     (if shouldBeVisible then
        let s1 = s\<lparr>settingsHideTimer := False\<rparr> in
        (case calculateSettingsWindowPosition (windowPool s1) of
           Inl e \<Rightarrow> Inl e
         | Inr None \<Rightarrow> Inr s1
         | Inr (Some position) \<Rightarrow>
             Inr (s1\<lparr>windowPool :=
                      pool_modify ''settings''
                        (\<lambda>w. applyAggressiveAlwaysOnTop
                               (showInactive (w\<lparr>w_bounds := position, w_lockedByButton := True\<rparr>)))
                        (windowPool s1)\<rparr>))
      else
        Inr (s\<lparr>settingsHideTimer := True,
                windowPool := pool_modify ''settings'' (\<lambda>w. w\<lparr>w_lockedByButton := False\<rparr>)
                                (windowPool s)\<rparr>))"

definition settingsHideTimer_fire :: "wm_state \<Rightarrow> wm_state" where
  \<comment> \<open>the callback of the 200 ms timer set by a hide request for the settings window\<close>
  "settingsHideTimer_fire s =
     s\<lparr>settingsHideTimer := False,
       windowPool := pool_modify ''settings''
                       (\<lambda>w. if isDestroyed w then w else hide (removeAggressiveAlwaysOnTop w))
                       (windowPool s)\<rparr>"

definition visibility_shortcut_settings :: "wm_state \<Rightarrow> bool \<Rightarrow> js_error + wm_state" where
  \<comment> \<open>the branch \<open>name === 'shortcut-settings'\<close> of \<open>handleWindowVisibilityRequest\<close>\<close>
  "visibility_shortcut_settings s shouldBeVisible =
     (if shouldBeVisible then
        (case calculateShortcutSettingsWindowPosition (windowPool s) of
           Inl e \<Rightarrow> Inl e
         | Inr newBounds \<Rightarrow>
             let pool1 = (case newBounds of
                            None \<Rightarrow> windowPool s
                          | Some b \<Rightarrow> pool_modify ''shortcut-settings'' (\<lambda>w. w\<lparr>w_bounds := b\<rparr>)
                                        (windowPool s));
                 pool2 = pool_modify ''shortcut-settings'' applyAggressiveAlwaysOnTop pool1;
                 pool3 = disableClicks ''shortcut-settings'' pool2;
                 pool4 = pool_modify ''shortcut-settings'' showInactive pool3
             in Inr (s\<lparr>windowPool := pool4\<rparr>))
      else
        let pool1 = pool_modify ''shortcut-settings'' removeAggressiveAlwaysOnTop (windowPool s);
            pool2 = restoreClicks pool1;
            pool3 = pool_modify ''shortcut-settings'' hide pool2
        in Inr (s\<lparr>windowPool := pool3\<rparr>))"

definition ANIM_OFFSET_X :: int where
  "ANIM_OFFSET_X = 50"

definition ANIM_OFFSET_Y :: int where
  "ANIM_OFFSET_Y = 20"

definition anim_offset :: "string \<Rightarrow> rectangle \<Rightarrow> rectangle" where
  \<comment> \<open>the start (or exit) position: listen slides along x, ask along y\<close>
  "anim_offset name b =
     (if name = ''listen'' then b\<lparr>rect_x := rect_x b - ANIM_OFFSET_X\<rparr>
      else if name = ''ask'' then b\<lparr>rect_y := rect_y b - ANIM_OFFSET_Y\<rparr>
      else b)"

definition visibility_feature ::
  "screen \<Rightarrow> wm_state \<Rightarrow> string \<Rightarrow> browser_window \<Rightarrow> bool \<Rightarrow> js_error + wm_state" where
  \<comment> \<open>the branch \<open>name === 'listen' || name === 'ask'\<close> of \<open>handleWindowVisibilityRequest\<close>\<close>
  "visibility_feature scr s name win shouldBeVisible =
     (let otherName = (if name = ''listen'' then ''ask'' else ''listen'');
          isOtherWinVisible =
            (case pool_get (windowPool s) otherName of
               None \<Rightarrow> False
             | Some otherWin \<Rightarrow> \<not> isDestroyed otherWin \<and> w_visible otherWin);
          finalVisibility0 =
            \<lparr>vis_ask = ((name = ''ask'' \<and> shouldBeVisible) \<or> (otherName = ''ask'' \<and> isOtherWinVisible)),
             vis_listen = ((name = ''listen'' \<and> shouldBeVisible)
                           \<or> (otherName = ''listen'' \<and> isOtherWinVisible))\<rparr>;
          finalVisibility =
            (if shouldBeVisible then finalVisibility0
             else if name = ''ask'' then finalVisibility0\<lparr>vis_ask := False\<rparr>
             else finalVisibility0\<lparr>vis_listen := False\<rparr>)
      in case calculateFeatureWindowLayout scr (windowPool s) finalVisibility None of
           Inl e \<Rightarrow> Inl e
         | Inr targetLayout \<Rightarrow>
             if shouldBeVisible then
               (case targetLayout name of
                  None \<Rightarrow> Inr s
                | Some targetBounds \<Rightarrow>
                    let startPos = anim_offset name targetBounds;
                        pool1 = pool_modify name
                                  (\<lambda>w. applyAggressiveAlwaysOnTop
                                         (showInactive (w\<lparr>w_opacity := 0, w_bounds := startPos\<rparr>)))
                                  (windowPool s)
                    in Inr (s\<lparr>windowPool := pool1,
                               motion_calls := motion_calls s
                                 @ [Fade name 1 False, AnimateLayout targetLayout]\<rparr>))
             else if \<not> w_visible win then Inr s
             else
               let currentBounds = w_bounds win;
                   targetPos = anim_offset name currentBounds;
                   otherWindowsLayout = targetLayout(name := None)
               in Inr (s\<lparr>motion_calls := motion_calls s
                            @ [Fade name 0 True, AnimateWindowPosition name targetPos,
                               AnimateLayout otherWindowsLayout]\<rparr>))"

definition handleWindowVisibilityRequest ::
  "screen \<Rightarrow> wm_state \<Rightarrow> string \<Rightarrow> bool \<Rightarrow> js_error + wm_state" where
  "handleWindowVisibilityRequest scr s name shouldBeVisible =
     (case pool_get (windowPool s) name of
        None \<Rightarrow> Inr s
      | Some win \<Rightarrow>
          if isDestroyed win then Inr s
          else if name \<noteq> ''settings'' \<and> w_visible win = shouldBeVisible then Inr s
          else if name = ''settings'' then visibility_settings s shouldBeVisible
          else if name = ''shortcut-settings'' then visibility_shortcut_settings s shouldBeVisible
          else if name = ''listen'' \<or> name = ''ask'' then
            visibility_feature scr s name win shouldBeVisible
          else Inr s)"

definition hide_recorded :: "string \<Rightarrow> window_pool \<Rightarrow> window_pool" where
  \<comment> \<open>the callback of \<open>lastVisibleWindows.forEach\<close> in the hiding branch\<close>
  "hide_recorded name p =
     (if name = ''header'' then p
      else (case pool_get p name of
              None \<Rightarrow> p
            | Some w \<Rightarrow> if isDestroyed w then p else pool_modify name hide p))"

definition show_recorded :: "string \<Rightarrow> window_pool \<Rightarrow> window_pool" where
  \<comment> \<open>the callback of \<open>lastVisibleWindows.forEach\<close> in the showing branch\<close>
  "show_recorded name p =
     (case pool_get p name of
        None \<Rightarrow> p
      | Some w \<Rightarrow> if isDestroyed w then p else pool_modify name showInactive p)"

definition changeAllWindowsVisibility :: "wm_state \<Rightarrow> bool option \<Rightarrow> js_error + wm_state" where
  \<comment> \<open>\<open>targetVisibility\<close> is \<open>Some b\<close> for a boolean and \<open>None\<close> for any other value\<close>
  "changeAllWindowsVisibility s targetVisibility =
     (case pool_get (windowPool s) ''header'' of
        None \<Rightarrow> Inr s
      | Some header \<Rightarrow>
          (case isVisible header of
             Inl e \<Rightarrow> Inl e
           | Inr headerVisible \<Rightarrow>
               if targetVisibility = Some headerVisible then Inr s
               else if headerVisible then
                 let recorded = map fst (filter (\<lambda>(n, w). \<not> isDestroyed w \<and> w_visible w)
                                                (windowPool s));
                     pool1 = fold hide_recorded recorded (windowPool s);
                     pool2 = pool_modify ''header'' hide pool1
                 in Inr (s\<lparr>lastVisibleWindows := recorded, windowPool := pool2\<rparr>)
               else
                 Inr (s\<lparr>windowPool :=
                          fold show_recorded (lastVisibleWindows s) (windowPool s)\<rparr>)))"

definition visible_windows :: "window_pool \<Rightarrow> string set" where
  \<comment> \<open>the names of the windows in the pool that are not destroyed and visible\<close>
  "visible_windows pool =
     {n. \<exists>w. pool_get pool n = Some w \<and> \<not> isDestroyed w \<and> w_visible w}"

subsection \<open>Focus reassertion\<close>

text \<open>What \<open>BrowserWindow.getFocusedWindow()\<close> returns.\<close>

datatype focused_window = NoFocusedWindow | FocusedInPool string | FocusedNotInPool

definition setAggressiveFocusMode :: "bool \<Rightarrow> wm_state \<Rightarrow> wm_state" where
  "setAggressiveFocusMode enabled s = s\<lparr>aggressiveFocusMode := enabled\<rparr>"

definition restoreFocusIfNeeded :: "wm_state \<Rightarrow> wm_state" where
  \<comment> \<open>clears a pending timer and sets a new one of 100 ms\<close>
  "restoreFocusIfNeeded s = s\<lparr>focusRestoreTimer := True\<rparr>"

definition focusRestoreTimer_fire :: "focused_window \<Rightarrow> wm_state \<Rightarrow> wm_state" where
  \<comment> \<open>the callback of the timer set by \<open>restoreFocusIfNeeded\<close>; the header is the window
      stored under \<open>header\<close>, and of \<open>moveTop\<close> and \<open>focus\<close> only the gain of focus is
      kept in the state\<close>
  "focusRestoreTimer_fire activeWindow s =
     (case pool_get (windowPool s) ''header'' of
        None \<Rightarrow> s\<lparr>focusRestoreTimer := False\<rparr>
      | Some header \<Rightarrow>
          if \<not> isDestroyed header \<and> \<not> w_focused header \<and> w_visible header
             \<and> shouldMaintainFocus s then
            if activeWindow = FocusedNotInPool then s
            else s\<lparr>focusRestoreTimer := False,
                   windowPool := pool_modify ''header''
                                   (\<lambda>w. (applyAggressiveAlwaysOnTop w)\<lparr>w_focused := True\<rparr>)
                                   (windowPool s)\<rparr>
          else s\<lparr>focusRestoreTimer := False\<rparr>)"

definition restoreFocusIfHeaderVisible :: "wm_state \<Rightarrow> js_error + wm_state" where
  \<comment> \<open>the guard shared by the resume, unlock-screen, activate and display-metrics-changed
      handlers: \<open>header.isVisible() && !header.isDestroyed()\<close>\<close>
  "restoreFocusIfHeaderVisible s =
     (case pool_get (windowPool s) ''header'' of
        None \<Rightarrow> Inr s
      | Some header \<Rightarrow>
          (case isVisible header of
             Inl e \<Rightarrow> Inl e
           | Inr v \<Rightarrow> if v \<and> \<not> isDestroyed header then Inr (restoreFocusIfNeeded s) else Inr s))"

definition on_resume :: "wm_state \<Rightarrow> js_error + wm_state" where
  "on_resume s = restoreFocusIfHeaderVisible s"

definition on_unlock_screen :: "wm_state \<Rightarrow> js_error + wm_state" where
  "on_unlock_screen s = restoreFocusIfHeaderVisible s"

definition on_activate :: "wm_state \<Rightarrow> js_error + wm_state" where
  "on_activate s = restoreFocusIfHeaderVisible s"

definition on_display_metrics_changed :: "wm_state \<Rightarrow> js_error + wm_state" where
  "on_display_metrics_changed s = restoreFocusIfHeaderVisible s"

definition on_blur :: "focused_window \<Rightarrow> wm_state \<Rightarrow> js_error + wm_state" where
  \<comment> \<open>the blur handler of the header together with its 500 ms settle timer; \<open>activeWindow\<close>
      is the focused window when the timer fires\<close>
  "on_blur activeWindow s =
     (case pool_get (windowPool s) ''header'' of
        None \<Rightarrow> Inr s
      | Some header \<Rightarrow>
          (case isVisible header of
             Inl e \<Rightarrow> Inl e
           | Inr v \<Rightarrow>
               if v \<and> w_alwaysOnTop header then
                 (if activeWindow = NoFocusedWindow \<or> activeWindow = FocusedNotInPool
                  then Inr (restoreFocusIfNeeded s) else Inr s)
               else Inr s))"

section \<open>crashRecoveryManager.js\<close>

text \<open>
  Pending \<open>setTimeout\<close> callbacks that will call \<open>attemptWindowRecovery\<close> are kept in the
  state with their delay, and the calls of \<open>showCrashDialog\<close> are recorded.
\<close>

record crm_state =
  isShuttingDown :: bool
  recoveryAttempts :: "string \<Rightarrow> nat option"
  recovery_timers :: "(nat \<times> string \<times> string) list"
  crash_dialogs :: "(string \<times> string) list"

definition maxRecoveryAttempts :: nat where
  "maxRecoveryAttempts = 3"

definition attempts_of :: "crm_state \<Rightarrow> string \<Rightarrow> nat" where
  \<comment> \<open>\<open>this.recoveryAttempts.get(windowName) || 0\<close>\<close>
  "attempts_of s windowName = (case recoveryAttempts s windowName of None \<Rightarrow> 0 | Some n \<Rightarrow> n)"


definition attemptWindowRecovery :: "bool \<Rightarrow> crm_state \<Rightarrow> string \<Rightarrow> string \<Rightarrow> crm_state" where
  \<comment> \<open>\<open>recreated\<close>: whether the recreation of the window returned (\<open>True\<close>) or threw\<close>
  "attemptWindowRecovery recreated s windowName crashId =
     (if recreated then
        s\<lparr>recoveryAttempts := (recoveryAttempts s)(windowName := None)\<rparr>
      else
        let attempts = attempts_of s windowName in
        if attempts < maxRecoveryAttempts then
          s\<lparr>recoveryAttempts := (recoveryAttempts s)(windowName \<mapsto> attempts + 1),
            recovery_timers := recovery_timers s @ [(2000, windowName, crashId)]\<rparr>
        else
          s\<lparr>crash_dialogs := crash_dialogs s @ [(windowName, crashId)]\<rparr>)"

fun take_timer ::
  "string \<Rightarrow> (nat \<times> string \<times> string) list
     \<Rightarrow> ((nat \<times> string \<times> string) \<times> (nat \<times> string \<times> string) list) option" where
  \<comment> \<open>the oldest pending recovery timer of a window, and the timers left\<close>
  "take_timer windowName [] = None"
| "take_timer windowName (t # ts) =
     (if fst (snd t) = windowName then Some (t, ts)
      else (case take_timer windowName ts of
              None \<Rightarrow> None
            | Some (t', ts') \<Rightarrow> Some (t', t # ts')))"

definition recovery_timer_fire :: "bool \<Rightarrow> crm_state \<Rightarrow> string \<Rightarrow> crm_state" where
  \<comment> \<open>the oldest pending recovery timer of the window fires and runs
      \<open>attemptWindowRecovery\<close>; nothing happens when none is pending\<close>
  "recovery_timer_fire recreated s windowName =
     (case take_timer windowName (recovery_timers s) of
        None \<Rightarrow> s
      | Some ((delay, name, crashId), rest) \<Rightarrow>
          attemptWindowRecovery recreated (s\<lparr>recovery_timers := rest\<rparr>) name crashId)"

definition pending_recoveries :: "crm_state \<Rightarrow> string \<Rightarrow> nat" where
  "pending_recoveries s windowName =
     length (filter (\<lambda>t. fst (snd t) = windowName) (recovery_timers s))"

definition dialogs_for :: "crm_state \<Rightarrow> string \<Rightarrow> nat" where
  "dialogs_for s windowName = length (filter (\<lambda>d. fst d = windowName) (crash_dialogs s))"

fun failed_recoveries :: "nat \<Rightarrow> crm_state \<Rightarrow> string \<Rightarrow> crm_state" where
  \<comment> \<open>\<open>k\<close> recovery timers of the window fire in a row and each recreation fails\<close>
  "failed_recoveries 0 s windowName = s"
| "failed_recoveries (Suc k) s windowName =
     recovery_timer_fire False (failed_recoveries k s windowName) windowName"

section \<open>AskView.js: fitting the window height to the content\<close>

text \<open>
  What \<open>adjustWindowHeight\<close> reads from the page: whether \<open>window.api\<close> exists, and for
  each region whether the element exists, carries the class \<open>hidden\<close>, and its height.
\<close>

record dom_element =
  el_hidden :: bool
  el_height :: int

record ask_dom =
  has_api :: bool
  headerEl :: "dom_element option"
  responseEl :: "dom_element option"
  navEl :: "dom_element option"
  inputEl :: "dom_element option"

text \<open>
  The calls of \<open>window.api.askView.adjustWindowHeight\<close>: \<open>adjustWindowHeight\<close> passes the
  window name and the height, \<open>requestWindowResize\<close> passes the height alone.
\<close>

datatype resize_call =
    NamedHeight string int
  | BareHeight int

record ask_view =
  isThrottled :: bool
  raf_callbacks :: nat
  observing :: bool
  sent_requests :: "resize_call list"

definition visible_height :: "dom_element option \<Rightarrow> int" where
  \<comment> \<open>\<open>(el && !el.classList.contains('hidden')) ? el.offsetHeight : 0\<close>\<close>
  "visible_height el = (case el of None \<Rightarrow> 0 | Some e \<Rightarrow> if el_hidden e then 0 else el_height e)"

definition idealHeight :: "dom_element \<Rightarrow> dom_element \<Rightarrow> ask_dom \<Rightarrow> int" where
  "idealHeight headerE responseE page =
     (let headerHeight = (if el_hidden headerE then 0 else el_height headerE);
          responseHeight = el_height responseE;
          navHeight = visible_height (navEl page);
          inputHeight = visible_height (inputEl page)
      in headerHeight + responseHeight + navHeight + inputHeight)"

definition adjustWindowHeight :: "ask_dom \<Rightarrow> ask_view \<Rightarrow> ask_view" where
  "adjustWindowHeight page v =
     (if \<not> has_api page then v
      else (case (headerEl page, responseEl page) of
              (Some headerE, Some responseE) \<Rightarrow>
                let targetHeight = min 700 (idealHeight headerE responseE page)
                in v\<lparr>sent_requests := sent_requests v @ [NamedHeight ''ask'' targetHeight]\<rparr>
            | _ \<Rightarrow> v))"

definition adjustWindowHeightThrottled :: "ask_view \<Rightarrow> ask_view" where
  "adjustWindowHeightThrottled v =
     (if isThrottled v then v
      else v\<lparr>isThrottled := True, raf_callbacks := raf_callbacks v + 1\<rparr>)"

definition raf_callback :: "ask_dom \<Rightarrow> ask_view \<Rightarrow> ask_view" where
  \<comment> \<open>the callback passed to \<open>requestAnimationFrame\<close>\<close>
  "raf_callback page v = (adjustWindowHeight page v)\<lparr>isThrottled := False\<rparr>"

definition animation_frame :: "ask_dom \<Rightarrow> ask_view \<Rightarrow> ask_view" where
  \<comment> \<open>the browser runs the callbacks registered for this frame\<close>
  "animation_frame page v = ((raf_callback page) ^^ (raf_callbacks v)) (v\<lparr>raf_callbacks := 0\<rparr>)"

definition js_ceil :: "rat \<Rightarrow> int" where
  \<comment> \<open>\<open>Math.ceil\<close>\<close>
  "js_ceil q = \<lceil>q\<rceil>"

definition requestWindowResize :: "ask_dom \<Rightarrow> int \<Rightarrow> ask_view \<Rightarrow> ask_view" where
  "requestWindowResize page targetHeight v =
     (if has_api page then v\<lparr>sent_requests := sent_requests v @ [BareHeight targetHeight]\<rparr>
      else v)"

fun resize_observer_callback :: "ask_dom \<Rightarrow> int \<Rightarrow> rat list \<Rightarrow> ask_view \<Rightarrow> ask_view" where
  \<comment> \<open>the callback of the \<open>ResizeObserver\<close>: \<open>innerHeight\<close> is \<open>window.innerHeight\<close>, the list
      holds \<open>contentRect.height\<close> of each entry\<close>
  "resize_observer_callback page innerHeight [] v = v"
| "resize_observer_callback page innerHeight (needed # entries) v =
     resize_observer_callback page innerHeight entries
       (if needed > of_int innerHeight - 4 then requestWindowResize page (js_ceil needed) v
        else v)"

definition connectedCallback :: "bool \<Rightarrow> ask_view \<Rightarrow> ask_view" where
  \<comment> \<open>creates the observer and observes \<open>.ask-container\<close> if the shadow root already holds it\<close>
  "connectedCallback containerFound v = v\<lparr>observing := containerFound\<rparr>"

definition disconnectedCallback :: "ask_view \<Rightarrow> ask_view" where
  "disconnectedCallback v = v\<lparr>observing := False\<rparr>"

text \<open>
  What happens in the view: a render pass (\<open>updated\<close>, \<open>renderContent\<close>) calls the
  throttled wrapper; an animation frame runs the registered callbacks; once, 200 ms after
  the first render, the timer set by \<open>firstUpdated\<close> calls \<open>adjustWindowHeight\<close> directly;
  the \<open>ResizeObserver\<close> delivers entries if it observes the container; the element is
  connected or disconnected.
\<close>

datatype ask_event =
    RenderPass
  | AnimationFrame ask_dom
  | FirstUpdatedTimer ask_dom
  | ResizeObserved ask_dom int "rat list"
  | Connected bool
  | Disconnected

fun ask_step :: "ask_view \<Rightarrow> ask_event \<Rightarrow> ask_view" where
  "ask_step v RenderPass = adjustWindowHeightThrottled v"
| "ask_step v (AnimationFrame page) = animation_frame page v"
| "ask_step v (FirstUpdatedTimer page) = adjustWindowHeight page v"
| "ask_step v (ResizeObserved page innerHeight entries) =
     (if observing v then resize_observer_callback page innerHeight entries v else v)"
| "ask_step v (Connected containerFound) = connectedCallback containerFound v"
| "ask_step v Disconnected = disconnectedCallback v"

definition ask_run :: "ask_view \<Rightarrow> ask_event list \<Rightarrow> ask_view" where
  "ask_run v evs = foldl ask_step v evs"







section \<open>Example states\<close>

definition example_display :: display where
  "example_display = \<lparr>display_id = 1,
     workArea = \<lparr>rect_x = 0, rect_y = 25, rect_width = 1440, rect_height = 875\<rparr>\<rparr>"

definition example_screen :: screen where
  "example_screen = \<lparr>getPrimaryDisplay = example_display, getAllDisplays = [example_display],
     getDisplayNearestPoint = (\<lambda>x y. example_display)\<rparr>"

definition live_window :: "rectangle \<Rightarrow> bool \<Rightarrow> browser_window" where
  "live_window b v = \<lparr>w_destroyed = False, w_bounds = b, w_visible = v, w_focused = False,
     w_opacity = 1, w_alwaysOnTop = False, w_ignoreMouseEvents = False, w_lockedByButton = False\<rparr>"

definition destroyed_window :: browser_window where
  "destroyed_window = (live_window \<lparr>rect_x = 0, rect_y = 0, rect_width = 0, rect_height = 0\<rparr> False)
     \<lparr>w_destroyed := True\<rparr>"

definition example_header :: browser_window where
  "example_header = live_window \<lparr>rect_x = 543, rect_y = 46, rect_width = 353, rect_height = 47\<rparr> True"

definition example_pool :: window_pool where
  "example_pool =
     [(''header'', example_header),
      (''listen'', live_window \<lparr>rect_x = 0, rect_y = 0, rect_width = 400, rect_height = 300\<rparr> True),
      (''ask'', live_window \<lparr>rect_x = 0, rect_y = 0, rect_width = 777, rect_height = 250\<rparr> True)]"



definition initial_ask_view :: ask_view where
  \<comment> \<open>the constructor of \<open>AskView\<close> sets \<open>isThrottled = false\<close>\<close>
  "initial_ask_view =
     \<lparr>isThrottled = False, raf_callbacks = 0, observing = False, sent_requests = []\<rparr>"

definition example_page :: ask_dom where
  "example_page =
     \<lparr>has_api = True,
      headerEl = Some \<lparr>el_hidden = False, el_height = 40\<rparr>,
      responseEl = Some \<lparr>el_hidden = False, el_height = 900\<rparr>,
      navEl = Some \<lparr>el_hidden = True, el_height = 30\<rparr>,
      inputEl = Some \<lparr>el_hidden = False, el_height = 50\<rparr>\<rparr>"

definition live_names :: "window_pool \<Rightarrow> string set" where
  \<comment> \<open>the names of the windows in the pool that are not destroyed\<close>
  "live_names p = {n. \<exists>w. pool_get p n = Some w \<and> \<not> isDestroyed w}"

definition focus_pool :: window_pool where
  "focus_pool = [(''header'', example_header\<lparr>w_alwaysOnTop := True\<rparr>)]"

definition set_live_width :: "string \<Rightarrow> int \<Rightarrow> window_pool \<Rightarrow> window_pool" where
  \<comment> \<open>the live window stored under a name is given another width from outside\<close>
  "set_live_width name w pool =
     pool_modify name (\<lambda>win. win\<lparr>w_bounds := (w_bounds win)\<lparr>rect_width := w\<rparr>\<rparr>) pool"

section \<open>Properties of the layout calculation\<close>

lemma pool_get_modify:
  "pool_get (pool_modify n f p) m = (if m = n then map_option f (pool_get p n) else pool_get p m)"
  by (induction p) (auto simp: pool_get_def)

lemma pool_get_set_live_width:
  "pool_get (set_live_width n w p) m =
     (if m = n then map_option (\<lambda>win. win\<lparr>w_bounds := (w_bounds win)\<lparr>rect_width := w\<rparr>\<rparr>) (pool_get p n)
      else pool_get p m)"
  by (simp add: set_live_width_def pool_get_modify)

lemma getWindowDimensions_set_live_width:
  assumes "n = ''ask'' \<or> n = ''listen''"
  shows "getWindowDimensions (set_live_width n w p) m = getWindowDimensions p m"
  using assms
  by (auto simp: getWindowDimensions_def pool_get_set_live_width isDestroyed_def Let_def
        ORIGINAL_WINDOW_DIMENSIONS_def split: option.splits)

lemma live_set_live_width:
  "(case pool_get (set_live_width n w p) m of None \<Rightarrow> False | Some x \<Rightarrow> \<not> isDestroyed x)
     = (case pool_get p m of None \<Rightarrow> False | Some x \<Rightarrow> \<not> isDestroyed x)"
  by (auto simp: pool_get_set_live_width isDestroyed_def split: option.splits)

lemma layout_ignores_live_width:
  assumes "n = ''ask'' \<or> n = ''listen''"
  shows "calculateFeatureWindowLayout scr (set_live_width n w pool) vis ov
           = calculateFeatureWindowLayout scr pool vis ov"
proof -
  have h: "pool_get (set_live_width n w pool) ''header'' = pool_get pool ''header''"
    using assms by (auto simp: pool_get_set_live_width)
  show ?thesis
    unfolding calculateFeatureWindowLayout_def
    by (simp only: h live_set_live_width getWindowDimensions_set_live_width[OF assms])
qed

lemma getWindowDimensions_ask_width:
  "getWindowDimensions pool ''ask'' = Some d \<Longrightarrow> rect_width d = 600"
  by (auto simp: getWindowDimensions_def ORIGINAL_WINDOW_DIMENSIONS_def Let_def split: option.splits if_splits)

lemma getWindowDimensions_listen_width:
  "getWindowDimensions pool ''listen'' = Some d \<Longrightarrow> rect_width d = 400"
  by (auto simp: getWindowDimensions_def ORIGINAL_WINDOW_DIMENSIONS_def Let_def split: option.splits if_splits)

lemma place_window_width [simp]: "rect_width (place_window s hb wx x d) = rect_width d"
  by (simp add: place_window_def Let_def)

lemma place_window_height [simp]: "rect_height (place_window s hb wx x d) = rect_height d"
  by (simp add: place_window_def Let_def)

lemma cfl_entry:
  assumes "calculateFeatureWindowLayout scr pool vis ov = Inr lay" "lay n = Some r"
  shows "\<exists>d. getWindowDimensions pool n = Some d \<and> rect_width r = rect_width d \<and> (n = ''ask'' \<or> n = ''listen'')"
  using assms
  unfolding calculateFeatureWindowLayout_def Let_def
  by (simp split: option.splits sum.splits if_splits prod.splits)
     (auto split: if_splits)

lemma getWindowDimensions_live:
  "feature_visible pool flag n \<Longrightarrow> \<exists>d. getWindowDimensions pool n = Some d"
  by (auto simp: feature_visible_def getWindowDimensions_def Let_def split: option.splits)

lemma cfl_normal_form:
  assumes hb: "layout_header_bounds pool ov = Some hb"
  shows "calculateFeatureWindowLayout scr pool vis ov =
     (let wa = layout_work_area scr hb;
          S = layout_strategy_of hb wa;
          c = header_center_rel hb wa;
          askVis = feature_visible pool (vis_ask vis) ''ask'';
          listenVis = feature_visible pool (vis_listen vis) ''listen'';
          ad = the (getWindowDimensions pool ''ask'');
          ld = the (getWindowDimensions pool ''listen'')
      in if askVis \<and> listenVis then
           Inr [''ask'' \<mapsto> place_window S hb (rect_x wa) (c - of_int (rect_width ad) / 2) ad,
                ''listen'' \<mapsto> place_window S hb (rect_x wa)
                    (c - of_int (rect_width ad) / 2 - of_int (rect_width ld) - of_int PAD) ld]
         else if askVis then
           Inr [''ask'' \<mapsto> place_window S hb (rect_x wa) (c - of_int (rect_width ad) / 2) ad]
         else if listenVis then
           Inr [''listen'' \<mapsto> place_window S hb (rect_x wa) (c - of_int (rect_width ld) / 2) ld]
         else Inr Map.empty)"
proof (cases ov)
  case (Some b)
  then have [simp]: "b = hb" using hb by (simp add: layout_header_bounds_def)
  show ?thesis
  proof (cases "feature_visible pool (vis_ask vis) ''ask''")
    case a: True
    then obtain ad where ad: "getWindowDimensions pool ''ask'' = Some ad"
      using getWindowDimensions_live by blast
    show ?thesis
    proof (cases "feature_visible pool (vis_listen vis) ''listen''")
      case l: True
      then obtain ld where ld: "getWindowDimensions pool ''listen'' = Some ld"
        using getWindowDimensions_live by blast
      from a l show ?thesis
        unfolding calculateFeatureWindowLayout_def
        by (simp add: Some ad ld Let_def feature_visible_def layout_work_area_def
              layout_strategy_of_def header_center_rel_def)
    next
      case l: False
      from a l show ?thesis
        unfolding calculateFeatureWindowLayout_def
        by (auto simp add: Some ad Let_def feature_visible_def layout_work_area_def
              layout_strategy_of_def header_center_rel_def)
    qed
  next
    case a: False
    show ?thesis
    proof (cases "feature_visible pool (vis_listen vis) ''listen''")
      case l: True
      then obtain ld where ld: "getWindowDimensions pool ''listen'' = Some ld"
        using getWindowDimensions_live by blast
      from a l show ?thesis
        unfolding calculateFeatureWindowLayout_def
        by (auto simp add: Some ld Let_def feature_visible_def layout_work_area_def
              layout_strategy_of_def header_center_rel_def)
    next
      case l: False
      from a l show ?thesis
        unfolding calculateFeatureWindowLayout_def
        by (auto simp add: Some Let_def feature_visible_def)
    qed
  qed
next
  case None
  then obtain h where h: "pool_get pool ''header'' = Some h" "\<not> isDestroyed h" "hb = w_bounds h"
    using hb by (auto simp: layout_header_bounds_def split: option.splits if_splits)
  have gb: "getBounds h = Inr hb" using h by (simp add: getBounds_def isDestroyed_def)
  have gd: "getCurrentDisplay scr (Some h) = getDisplayNearestPoint scr
       (of_int (rect_x hb) + of_int (rect_width hb) / 2)
       (of_int (rect_y hb) + of_int (rect_height hb) / 2)"
    using h by (simp add: getCurrentDisplay_def Let_def)
  show ?thesis
  proof (cases "feature_visible pool (vis_ask vis) ''ask''")
    case a: True
    then obtain ad where ad: "getWindowDimensions pool ''ask'' = Some ad"
      using getWindowDimensions_live by blast
    show ?thesis
    proof (cases "feature_visible pool (vis_listen vis) ''listen''")
      case l: True
      then obtain ld where ld: "getWindowDimensions pool ''listen'' = Some ld"
        using getWindowDimensions_live by blast
      from a l show ?thesis
        unfolding calculateFeatureWindowLayout_def
        by (simp add: None h(1) gb gd ad ld Let_def feature_visible_def layout_work_area_def
              layout_strategy_of_def header_center_rel_def)
    next
      case l: False
      from a l show ?thesis
        unfolding calculateFeatureWindowLayout_def
        by (auto simp add: None h(1) gb gd ad Let_def feature_visible_def layout_work_area_def
              layout_strategy_of_def header_center_rel_def)
    qed
  next
    case a: False
    show ?thesis
    proof (cases "feature_visible pool (vis_listen vis) ''listen''")
      case l: True
      then obtain ld where ld: "getWindowDimensions pool ''listen'' = Some ld"
        using getWindowDimensions_live by blast
      from a l show ?thesis
        unfolding calculateFeatureWindowLayout_def
        by (auto simp add: None h(1) gb gd ld Let_def feature_visible_def layout_work_area_def
              layout_strategy_of_def header_center_rel_def)
    next
      case l: False
      from a l show ?thesis
        unfolding calculateFeatureWindowLayout_def
        by (auto simp add: None h(1) gb gd Let_def feature_visible_def)
    qed
  qed
qed

lemma js_round_half: "js_round (of_int a / 2) = (a + 1) div 2"
proof -
  have "(of_int a / 2 + 1 / 2 :: rat) = of_int (a + 1) / of_int 2" by (simp add: field_simps)
  then show ?thesis unfolding js_round_def by (simp only: floor_divide_of_int_eq)
qed

lemma js_round_of_int [simp]: "js_round (of_int a) = a"
  unfolding js_round_def by linarith



lemma place_window_x: "rect_x (place_window s hb wx x d) = js_round (x + of_int wx)"
  by (simp add: place_window_def Let_def)

lemma place_window_y:
  "rect_y (place_window s hb wx x d) =
     (if primary s = above then rect_y hb - PAD - rect_height d
      else rect_y hb + rect_height hb + PAD)"
  by (simp add: place_window_def Let_def del: of_int_diff of_int_add)

lemma centered_x:
  "js_round (header_center_rel hb wa - of_int w / 2 + of_int (rect_x wa))
     = (2 * rect_x hb + rect_width hb - w + 1) div 2"
proof -
  have "header_center_rel hb wa - of_int w / 2 + of_int (rect_x wa)
          = (of_int (2 * rect_x hb + rect_width hb - w) :: rat) / 2"
    by (simp add: header_center_rel_def field_simps)
  then show ?thesis by (simp only: js_round_half)
qed

lemma left_of_centered_x:
  "js_round (header_center_rel hb wa - of_int aw / 2 - of_int lw - of_int p + of_int (rect_x wa))
     = (2 * rect_x hb + rect_width hb - aw + 1) div 2 - lw - p"
proof -
  have "header_center_rel hb wa - of_int aw / 2 - of_int lw - of_int p + of_int (rect_x wa)
          = (of_int (2 * rect_x hb + rect_width hb - aw - 2 * lw - 2 * p) :: rat) / 2"
    by (simp add: header_center_rel_def field_simps)
  then have "js_round (header_center_rel hb wa - of_int aw / 2 - of_int lw - of_int p + of_int (rect_x wa))
          = (2 * rect_x hb + rect_width hb - aw - 2 * lw - 2 * p + 1) div 2"
    by (simp only: js_round_half)
  also have "\<dots> = (2 * rect_x hb + rect_width hb - aw + 1) div 2 - lw - p" by linarith
  finally show ?thesis .
qed

lemma place_centered_x:
  "rect_x (place_window S hb (rect_x wa) (header_center_rel hb wa - of_int w / 2) d)
     = (2 * rect_x hb + rect_width hb - w + 1) div 2"
  by (simp only: place_window_x centered_x)

lemma place_left_x:
  "rect_x (place_window S hb (rect_x wa)
             (header_center_rel hb wa - of_int aw / 2 - of_int lw - of_int p) d)
     = (2 * rect_x hb + rect_width hb - aw + 1) div 2 - lw - p"
  by (simp only: place_window_x left_of_centered_x)

lemma strategy_above_iff:
  "primary (determineLayoutStrategy hb sw (rect_height wa) rx ry (rect_x wa) (rect_y wa)) = above
     \<longleftrightarrow> spec_space_above hb wa > spec_space_below hb wa"
  by (simp add: determineLayoutStrategy_def Let_def spec_space_above_def spec_space_below_def)


lemma cfl_defined:
  assumes "layout_header_bounds pool ov = Some hb"
  shows "\<exists>lay. calculateFeatureWindowLayout scr pool vis ov = Inr lay
           \<and> (feature_visible pool (vis_ask vis) ''ask'' \<longrightarrow> lay ''ask'' \<noteq> None)
           \<and> (feature_visible pool (vis_listen vis) ''listen'' \<longrightarrow> lay ''listen'' \<noteq> None)"
  by (simp add: cfl_normal_form[OF assms] Let_def)

text \<open>
  C1. Every bounds entry that \<open>calculateFeatureWindowLayout\<close> returns for the ask window
  has width 600 and every entry for the listen window has width 400, whatever the live
  bounds of the windows in the pool are; and when header bounds are available (an override,
  or a live header) and the window is requested and live, such an entry is returned. The
  pool, and with it the live width, is arbitrary; moreover a layout pass over a pool in which
  the live width of ask or listen has been set to any other value returns the same layout.
\<close>

theorem feature_layout_width_is_nominal:
  "(\<forall>lay r. calculateFeatureWindowLayout scr pool vis ov = Inr lay \<longrightarrow>
       (lay ''ask'' = Some r \<longrightarrow> rect_width r = 600) \<and>
       (lay ''listen'' = Some r \<longrightarrow> rect_width r = 400))
   \<and> (layout_header_bounds pool ov \<noteq> None \<longrightarrow>
       (feature_visible pool (vis_ask vis) ''ask'' \<longrightarrow>
          (\<exists>lay r. calculateFeatureWindowLayout scr pool vis ov = Inr lay
                   \<and> lay ''ask'' = Some r \<and> rect_width r = 600)) \<and>
       (feature_visible pool (vis_listen vis) ''listen'' \<longrightarrow>
          (\<exists>lay r. calculateFeatureWindowLayout scr pool vis ov = Inr lay
                   \<and> lay ''listen'' = Some r \<and> rect_width r = 400)))
   \<and> (\<forall>w. calculateFeatureWindowLayout scr (set_live_width ''ask'' w pool) vis ov
              = calculateFeatureWindowLayout scr pool vis ov)
   \<and> (\<forall>w. calculateFeatureWindowLayout scr (set_live_width ''listen'' w pool) vis ov
              = calculateFeatureWindowLayout scr pool vis ov)"
proof -
  have w: "rect_width r = 600" if "calculateFeatureWindowLayout scr pool vis ov = Inr lay"
      "lay ''ask'' = Some r" for lay r
    using cfl_entry[OF that] getWindowDimensions_ask_width by auto
  have w': "rect_width r = 400" if "calculateFeatureWindowLayout scr pool vis ov = Inr lay"
      "lay ''listen'' = Some r" for lay r
    using cfl_entry[OF that] getWindowDimensions_listen_width by auto
  have ex: "\<exists>lay r. calculateFeatureWindowLayout scr pool vis ov = Inr lay
                   \<and> lay ''ask'' = Some r \<and> rect_width r = 600"
    if "layout_header_bounds pool ov \<noteq> None" "feature_visible pool (vis_ask vis) ''ask''"
  proof -
    from that(1) obtain hb where "layout_header_bounds pool ov = Some hb" by auto
    from cfl_defined[OF this, of scr vis] that(2)
    obtain lay r where "calculateFeatureWindowLayout scr pool vis ov = Inr lay" "lay ''ask'' = Some r"
      by auto
    with w show ?thesis by blast
  qed
  have ex': "\<exists>lay r. calculateFeatureWindowLayout scr pool vis ov = Inr lay
                   \<and> lay ''listen'' = Some r \<and> rect_width r = 400"
    if "layout_header_bounds pool ov \<noteq> None" "feature_visible pool (vis_listen vis) ''listen''"
  proof -
    from that(1) obtain hb where "layout_header_bounds pool ov = Some hb" by auto
    from cfl_defined[OF this, of scr vis] that(2)
    obtain lay r where "calculateFeatureWindowLayout scr pool vis ov = Inr lay" "lay ''listen'' = Some r"
      by auto
    with w' show ?thesis by blast
  qed
  have m: "calculateFeatureWindowLayout scr (set_live_width ''ask'' x pool) vis ov
              = calculateFeatureWindowLayout scr pool vis ov" for x
    by (rule layout_ignores_live_width) simp
  have m': "calculateFeatureWindowLayout scr (set_live_width ''listen'' x pool) vis ov
              = calculateFeatureWindowLayout scr pool vis ov" for x
    by (rule layout_ignores_live_width) simp
  from w w' ex ex' m m' show ?thesis by blast
qed

lemma example_header_bounds:
  "layout_header_bounds example_pool None
     = Some \<lparr>rect_x = 543, rect_y = 46, rect_width = 353, rect_height = 47\<rparr>"
  by (simp add: layout_header_bounds_def example_pool_def example_header_def pool_get_def
        live_window_def isDestroyed_def)

lemma example_feature_visible:
  "feature_visible example_pool True ''ask''" "feature_visible example_pool True ''listen''"
  by (simp_all add: feature_visible_def example_pool_def pool_get_def live_window_def isDestroyed_def)

theorem feature_layout_width_is_nominal_witness:
  "pool_get example_pool ''ask'' =
      Some (live_window \<lparr>rect_x = 0, rect_y = 0, rect_width = 777, rect_height = 250\<rparr> True)
   \<and> (\<exists>lay r. calculateFeatureWindowLayout example_screen example_pool
                 \<lparr>vis_ask = True, vis_listen = False\<rparr> None = Inr lay
               \<and> lay ''ask'' = Some r \<and> rect_width r = 600)
   \<and> calculateFeatureWindowLayout example_screen (set_live_width ''ask'' 1234 example_pool)
        \<lparr>vis_ask = True, vis_listen = False\<rparr> None
      = calculateFeatureWindowLayout example_screen example_pool
        \<lparr>vis_ask = True, vis_listen = False\<rparr> None"
  using feature_layout_width_is_nominal
          [of example_screen example_pool "\<lparr>vis_ask = True, vis_listen = False\<rparr>" None]
        example_header_bounds example_feature_visible(1)
  by (simp add: example_pool_def pool_get_def)

text \<open>
  C4. The strategy computed by \<open>determineLayoutStrategy\<close> is \<open>above\<close> exactly when the
  space between the top of the work area and the top of the header is strictly larger than
  the space between the bottom of the header and the bottom of the work area; equal spaces
  give \<open>below\<close>. Every window that a layout pass places follows that strategy: its bottom
  edge is 8 px above the header in the first case, its top edge 8 px below the header
  otherwise.
\<close>

theorem placement_above_iff_more_space_above:
  "(primary (determineLayoutStrategy hb sw (rect_height wa) rx ry (rect_x wa) (rect_y wa)) = above
      \<longleftrightarrow> spec_space_above hb wa > spec_space_below hb wa)
   \<and> (spec_space_above hb wa = spec_space_below hb wa \<longrightarrow>
        primary (determineLayoutStrategy hb sw (rect_height wa) rx ry (rect_x wa) (rect_y wa)) = below)
   \<and> (\<forall>lay n r. layout_header_bounds pool ov = Some hb
          \<and> calculateFeatureWindowLayout scr pool vis ov = Inr lay \<and> lay n = Some r \<longrightarrow>
        (if spec_space_above hb (layout_work_area scr hb) > spec_space_below hb (layout_work_area scr hb)
         then rect_y r + rect_height r = rect_y hb - PAD
         else rect_y r = rect_y hb + rect_height hb + PAD))"
proof (intro conjI allI impI)
  show "primary (determineLayoutStrategy hb sw (rect_height wa) rx ry (rect_x wa) (rect_y wa)) = above
      \<longleftrightarrow> spec_space_above hb wa > spec_space_below hb wa"
    by (rule strategy_above_iff)
next
  assume "spec_space_above hb wa = spec_space_below hb wa"
  then have "primary (determineLayoutStrategy hb sw (rect_height wa) rx ry (rect_x wa) (rect_y wa)) \<noteq> above"
    by (simp add: strategy_above_iff)
  then show "primary (determineLayoutStrategy hb sw (rect_height wa) rx ry (rect_x wa) (rect_y wa)) = below"
    by (cases "primary (determineLayoutStrategy hb sw (rect_height wa) rx ry (rect_x wa) (rect_y wa))") auto
next
  fix lay n r
  assume a: "layout_header_bounds pool ov = Some hb
          \<and> calculateFeatureWindowLayout scr pool vis ov = Inr lay \<and> lay n = Some r"
  let ?wa = "layout_work_area scr hb"
  have s: "primary (layout_strategy_of hb ?wa) = above
      \<longleftrightarrow> spec_space_above hb ?wa > spec_space_below hb ?wa"
    unfolding layout_strategy_of_def by (rule strategy_above_iff)
  from a have "\<exists>x d. r = place_window (layout_strategy_of hb ?wa) hb (rect_x ?wa) x d"
    by (auto simp: cfl_normal_form[of pool ov hb] Let_def split: if_splits) blast+
  then obtain x d where r: "r = place_window (layout_strategy_of hb ?wa) hb (rect_x ?wa) x d"
    by blast
  show "if spec_space_above hb ?wa > spec_space_below hb ?wa
         then rect_y r + rect_height r = rect_y hb - PAD
         else rect_y r = rect_y hb + rect_height hb + PAD"
    using s by (simp add: r place_window_y)
qed

theorem placement_above_iff_more_space_above_witness:
  "spec_space_above \<lparr>rect_x = 543, rect_y = 100, rect_width = 353, rect_height = 50\<rparr>
                    \<lparr>rect_x = 0, rect_y = 0, rect_width = 1440, rect_height = 250\<rparr>
     = spec_space_below \<lparr>rect_x = 543, rect_y = 100, rect_width = 353, rect_height = 50\<rparr>
                        \<lparr>rect_x = 0, rect_y = 0, rect_width = 1440, rect_height = 250\<rparr>
   \<and> primary (determineLayoutStrategy
                \<lparr>rect_x = 543, rect_y = 100, rect_width = 353, rect_height = 50\<rparr>
                1440 250 0 0 0 0) = below
   \<and> primary (determineLayoutStrategy
                \<lparr>rect_x = 543, rect_y = 101, rect_width = 353, rect_height = 50\<rparr>
                1440 250 0 0 0 0) = above"
  using placement_above_iff_more_space_above
          [of "\<lparr>rect_x = 543, rect_y = 100, rect_width = 353, rect_height = 50\<rparr>" 1440
              "\<lparr>rect_x = 0, rect_y = 0, rect_width = 1440, rect_height = 250\<rparr>" 0 0
              example_pool None example_screen "\<lparr>vis_ask = True, vis_listen = False\<rparr>"]
        placement_above_iff_more_space_above
          [of "\<lparr>rect_x = 543, rect_y = 101, rect_width = 353, rect_height = 50\<rparr>" 1440
              "\<lparr>rect_x = 0, rect_y = 0, rect_width = 1440, rect_height = 250\<rparr>" 0 0
              example_pool None example_screen "\<lparr>vis_ask = True, vis_listen = False\<rparr>"]
  by (simp add: spec_space_above_def spec_space_below_def)

text \<open>
  C5. When header bounds are available and both the ask and the listen window are requested
  and live, the layout holds bounds for both; the right edge of listen lies exactly 8 px
  left of the left edge of ask, and the two rectangles do not overlap. The strategy is
  whatever the header position gives, so this covers \<open>above\<close> and \<open>below\<close>.
\<close>

theorem ask_listen_separated_by_padding:
  assumes "layout_header_bounds pool ov \<noteq> None"
    and "feature_visible pool (vis_ask vis) ''ask''"
    and "feature_visible pool (vis_listen vis) ''listen''"
  shows "\<exists>lay a l. calculateFeatureWindowLayout scr pool vis ov = Inr lay
           \<and> lay ''ask'' = Some a \<and> lay ''listen'' = Some l
           \<and> rect_x l + rect_width l + 8 = rect_x a
           \<and> \<not> rects_overlap a l"
proof -
  from assms(1) obtain hb where hb: "layout_header_bounds pool ov = Some hb" by auto
  from assms(2,3) obtain ad ld where
    ad: "getWindowDimensions pool ''ask'' = Some ad" and
    ld: "getWindowDimensions pool ''listen'' = Some ld"
    using getWindowDimensions_live by blast
  have lw: "rect_width ld = 400" using ld by (rule getWindowDimensions_listen_width)
  let ?wa = "layout_work_area scr hb"
  let ?S = "layout_strategy_of hb ?wa"
  let ?c = "header_center_rel hb ?wa"
  define a where "a = place_window ?S hb (rect_x ?wa) (?c - of_int (rect_width ad) / 2) ad"
  define l where "l = place_window ?S hb (rect_x ?wa)
              (?c - of_int (rect_width ad) / 2 - of_int (rect_width ld) - of_int PAD) ld"
  have res: "calculateFeatureWindowLayout scr pool vis ov = Inr [''ask'' \<mapsto> a, ''listen'' \<mapsto> l]"
    using assms(2,3) by (simp add: cfl_normal_form[OF hb] Let_def ad ld a_def l_def)
  have ax: "rect_x a = (2 * rect_x hb + rect_width hb - rect_width ad + 1) div 2"
    unfolding a_def by (rule place_centered_x)
  have lx: "rect_x l = (2 * rect_x hb + rect_width hb - rect_width ad + 1) div 2 - rect_width ld - PAD"
    unfolding l_def by (rule place_left_x)
  have lwd: "rect_width l = 400" unfolding l_def by (simp add: lw)
  have sep: "rect_x l + rect_width l + 8 = rect_x a"
    by (simp add: ax lx lwd lw PAD_def)
  have "\<not> rects_overlap a l"
    using sep lwd by (simp add: rects_overlap_def)
  with res sep show ?thesis by simp
qed

theorem ask_listen_separated_by_padding_witness:
  "\<exists>lay a l. calculateFeatureWindowLayout example_screen example_pool
                \<lparr>vis_ask = True, vis_listen = True\<rparr> None = Inr lay
           \<and> lay ''ask'' = Some a \<and> lay ''listen'' = Some l
           \<and> rect_x l + rect_width l + 8 = rect_x a
           \<and> \<not> rects_overlap a l"
  using ask_listen_separated_by_padding
          [of example_pool None "\<lparr>vis_ask = True, vis_listen = True\<rparr>" example_screen]
        example_header_bounds example_feature_visible
  by simp

lemma half_round_even:
  fixes x h w :: int
  assumes "even w"
  shows "2 * ((2 * x + h - w + 1) div 2) + w - (2 * x + h) = h mod 2"
proof -
  from assms obtain k where "w = 2 * k" by (auto elim: evenE)
  then show ?thesis by (simp; presburger)
qed

text \<open>
  C6, as amended. A layout pass places the ask window at
  \<open>Math.round(headerCenterX - 300)\<close>: twice its centre exceeds twice the header's centre
  by the parity of the header width, so the centres agree for an even header width and
  differ by half a pixel for an odd one. The same holds for the listen window when it is
  placed alone. When both are placed, ask is still centred in this way and listen lies to
  its left at the 8 px gap, so the centre of the combined span lies 204 px left of the
  centre of ask.
\<close>

theorem feature_windows_centered_up_to_rounding:
  assumes "layout_header_bounds pool ov = Some hb"
    and "calculateFeatureWindowLayout scr pool vis ov = Inr lay"
  shows "(\<forall>a. lay ''ask'' = Some a \<longrightarrow> center2 a - center2 hb = rect_width hb mod 2)
       \<and> (\<forall>l. lay ''listen'' = Some l \<and> lay ''ask'' = None \<longrightarrow>
              center2 l - center2 hb = rect_width hb mod 2)
       \<and> (\<forall>a l. lay ''ask'' = Some a \<and> lay ''listen'' = Some l \<longrightarrow>
              rect_x l + rect_width l + 8 = rect_x a \<and> span_center2 l a = center2 a - 408)"
proof -
  let ?wa = "layout_work_area scr hb"
  let ?S = "layout_strategy_of hb ?wa"
  let ?c = "header_center_rel hb ?wa"
  note nf = cfl_normal_form[OF assms(1), of scr vis, unfolded assms(2) Let_def]
  show ?thesis
  proof (cases "feature_visible pool (vis_ask vis) ''ask''")
    case av: True
    then obtain ad where ad: "getWindowDimensions pool ''ask'' = Some ad"
      using getWindowDimensions_live by blast
    have aw: "rect_width ad = 600" using ad by (rule getWindowDimensions_ask_width)
    define a where "a = place_window ?S hb (rect_x ?wa) (?c - of_int (rect_width ad) / 2) ad"
    have ax: "rect_x a = (2 * rect_x hb + rect_width hb - 600 + 1) div 2"
      unfolding a_def aw[symmetric] by (rule place_centered_x)
    have awd: "rect_width a = 600" unfolding a_def by (simp add: aw)
    have ac: "center2 a - center2 hb = rect_width hb mod 2"
      using half_round_even[of 600 "rect_x hb" "rect_width hb"]
      by (simp add: center2_def ax awd)
    show ?thesis
    proof (cases "feature_visible pool (vis_listen vis) ''listen''")
      case lv: True
      then obtain ld where ld: "getWindowDimensions pool ''listen'' = Some ld"
        using getWindowDimensions_live by blast
      have lw: "rect_width ld = 400" using ld by (rule getWindowDimensions_listen_width)
      define l where "l = place_window ?S hb (rect_x ?wa)
                (?c - of_int (rect_width ad) / 2 - of_int (rect_width ld) - of_int PAD) ld"
      have lx: "rect_x l = (2 * rect_x hb + rect_width hb - 600 + 1) div 2 - 400 - PAD"
        unfolding l_def aw[symmetric] lw[symmetric] by (rule place_left_x)
      have lwd: "rect_width l = 400" unfolding l_def by (simp add: lw)
      from nf av lv have lay: "lay = [''ask'' \<mapsto> a, ''listen'' \<mapsto> l]"
        by (simp add: ad ld a_def l_def)
      have "rect_x l + rect_width l + 8 = rect_x a \<and> span_center2 l a = center2 a - 408"
        by (simp add: ax lx lwd awd span_center2_def center2_def PAD_def)
      with ac show ?thesis by (simp add: lay)
    next
      case lv: False
      from nf av lv have lay: "lay = [''ask'' \<mapsto> a]"
        by (simp add: ad a_def)
      with ac show ?thesis by simp
    qed
  next
    case av: False
    show ?thesis
    proof (cases "feature_visible pool (vis_listen vis) ''listen''")
      case lv: True
      then obtain ld where ld: "getWindowDimensions pool ''listen'' = Some ld"
        using getWindowDimensions_live by blast
      have lw: "rect_width ld = 400" using ld by (rule getWindowDimensions_listen_width)
      define l where "l = place_window ?S hb (rect_x ?wa) (?c - of_int (rect_width ld) / 2) ld"
      have lx: "rect_x l = (2 * rect_x hb + rect_width hb - 400 + 1) div 2"
        unfolding l_def lw[symmetric] by (rule place_centered_x)
      have lwd: "rect_width l = 400" unfolding l_def by (simp add: lw)
      have lc: "center2 l - center2 hb = rect_width hb mod 2"
        using half_round_even[of 400 "rect_x hb" "rect_width hb"]
        by (simp add: center2_def lx lwd)
      from nf av lv have lay: "lay = [''listen'' \<mapsto> l]"
        by (simp add: ld l_def)
      with lc show ?thesis by simp
    next
      case lv: False
      from nf av lv have "lay = Map.empty" by simp
      then show ?thesis by simp
    qed
  qed
qed

lemma floor_half_rat: "\<lfloor>1 / 2 :: rat\<rfloor> = 0"
  by (rule floor_unique) simp_all

lemma example_layout_both:
  "calculateFeatureWindowLayout example_screen example_pool \<lparr>vis_ask = True, vis_listen = True\<rparr> None
     = Inr [''ask'' \<mapsto> \<lparr>rect_x = 420, rect_y = 101, rect_width = 600, rect_height = 250\<rparr>,
            ''listen'' \<mapsto> \<lparr>rect_x = 12, rect_y = 101, rect_width = 400, rect_height = 300\<rparr>]"
  by (simp add: calculateFeatureWindowLayout_def Let_def 
      place_window_def determineLayoutStrategy_def getCurrentDisplay_def getBounds_def
      example_screen_def example_display_def example_header_def
      getWindowDimensions_def example_pool_def pool_get_def live_window_def isDestroyed_def
      ORIGINAL_WINDOW_DIMENSIONS_def constrainHeight_def truthy_def PAD_def js_round_def floor_half_rat)

lemma example_layout_ask:
  "calculateFeatureWindowLayout example_screen example_pool \<lparr>vis_ask = True, vis_listen = False\<rparr> None
     = Inr [''ask'' \<mapsto> \<lparr>rect_x = 420, rect_y = 101, rect_width = 600, rect_height = 250\<rparr>]"
  by (simp add: calculateFeatureWindowLayout_def Let_def 
      place_window_def determineLayoutStrategy_def getCurrentDisplay_def getBounds_def
      example_screen_def example_display_def example_header_def
      getWindowDimensions_def example_pool_def pool_get_def live_window_def isDestroyed_def
      ORIGINAL_WINDOW_DIMENSIONS_def constrainHeight_def truthy_def PAD_def js_round_def floor_half_rat)

theorem feature_windows_centered_up_to_rounding_witness:
  "center2 \<lparr>rect_x = 420, rect_y = 101, rect_width = 600, rect_height = 250\<rparr>
     - center2 \<lparr>rect_x = 543, rect_y = 46, rect_width = 353, rect_height = 47\<rparr> = 1
   \<and> rect_x \<lparr>rect_x = 12, rect_y = 101, rect_width = 400, rect_height = 300\<rparr>
       + rect_width \<lparr>rect_x = 12, rect_y = 101, rect_width = 400, rect_height = 300\<rparr> + 8
       = rect_x \<lparr>rect_x = 420, rect_y = 101, rect_width = 600, rect_height = 250\<rparr>
   \<and> span_center2 \<lparr>rect_x = 12, rect_y = 101, rect_width = 400, rect_height = 300\<rparr>
                    \<lparr>rect_x = 420, rect_y = 101, rect_width = 600, rect_height = 250\<rparr>
       = center2 \<lparr>rect_x = 420, rect_y = 101, rect_width = 600, rect_height = 250\<rparr> - 408"
  using feature_windows_centered_up_to_rounding [OF example_header_bounds example_layout_both]
  by simp

text \<open>
  C6 as stated fails: with the default header (width 353) and both windows placed, the
  combined span from the left edge of listen to the right edge of ask is not centred on the
  header; and with ask alone, its centre is half a pixel right of the header's centre.
\<close>

theorem centering_counterexample:
  "calculateFeatureWindowLayout example_screen example_pool \<lparr>vis_ask = True, vis_listen = True\<rparr> None
     = Inr [''ask'' \<mapsto> \<lparr>rect_x = 420, rect_y = 101, rect_width = 600, rect_height = 250\<rparr>,
            ''listen'' \<mapsto> \<lparr>rect_x = 12, rect_y = 101, rect_width = 400, rect_height = 300\<rparr>]
   \<and> span_center2 \<lparr>rect_x = 12, rect_y = 101, rect_width = 400, rect_height = 300\<rparr>
                    \<lparr>rect_x = 420, rect_y = 101, rect_width = 600, rect_height = 250\<rparr>
       \<noteq> center2 (w_bounds example_header)
   \<and> calculateFeatureWindowLayout example_screen example_pool \<lparr>vis_ask = True, vis_listen = False\<rparr> None
     = Inr [''ask'' \<mapsto> \<lparr>rect_x = 420, rect_y = 101, rect_width = 600, rect_height = 250\<rparr>]
   \<and> center2 \<lparr>rect_x = 420, rect_y = 101, rect_width = 600, rect_height = 250\<rparr>
       \<noteq> center2 (w_bounds example_header)"
  by (simp add: example_layout_both example_layout_ask span_center2_def center2_def
        example_header_def live_window_def)

text \<open>
  C2. With a live header and a destroyed shortcut-settings window still in the pool,
  \<open>calculateShortcutSettingsWindowPosition\<close> reads \<open>width\<close> of the \<open>null\<close> that
  \<open>getWindowDimensions\<close> returns and throws, where \<open>calculateSettingsWindowPosition\<close>,
  which tests \<open>isDestroyed\<close>, returns \<open>null\<close>. With a destroyed header in the pool both
  it and \<open>calculateFeatureWindowLayout\<close> call \<open>getBounds\<close> on the destroyed window.
\<close>

theorem shortcut_settings_position_throws_when_destroyed:
  "calculateShortcutSettingsWindowPosition
      [(''header'', example_header), (''shortcut-settings'', destroyed_window)] = Inl NullDeref
   \<and> calculateSettingsWindowPosition
      [(''header'', example_header), (''settings'', destroyed_window)] = Inr None
   \<and> calculateShortcutSettingsWindowPosition
      [(''header'', destroyed_window), (''shortcut-settings'', example_header)] = Inl ObjectDestroyed
   \<and> calculateFeatureWindowLayout example_screen
      [(''header'', destroyed_window), (''ask'', example_header)]
      \<lparr>vis_ask = True, vis_listen = False\<rparr> None = Inl ObjectDestroyed"
  by (simp add: calculateShortcutSettingsWindowPosition_def calculateSettingsWindowPosition_def
        calculateFeatureWindowLayout_def
        pool_get_def getBounds_def getWindowDimensions_def isDestroyed_def
        example_header_def destroyed_window_def live_window_def)

section \<open>Properties of the crash recovery\<close>


lemma take_timer_none:
  "filter (\<lambda>t. fst (snd t) = n) ts = [] \<Longrightarrow> take_timer n ts = None"
  by (induction ts) (auto split: if_splits)

lemma nothing_pending_no_attempt:
  assumes "pending_recoveries s n = 0"
  shows "failed_recoveries j s n = s"
proof (induction j)
  case 0 show ?case by simp
next
  case (Suc j)
  from assms have "take_timer n (recovery_timers s) = None"
    by (simp add: pending_recoveries_def take_timer_none)
  with Suc show ?case by (simp add: recovery_timer_fire_def)
qed








section \<open>Properties of the content-fit resize\<close>



lemma throttled_sent [simp]:
  "sent_requests (adjustWindowHeightThrottled v) = sent_requests v"
  by (simp add: adjustWindowHeightThrottled_def)


lemma throttled_isThrottled [simp]: "isThrottled (adjustWindowHeightThrottled v)"
  by (simp add: adjustWindowHeightThrottled_def)

lemma adjust_fields [simp]:
  "isThrottled (adjustWindowHeight page v) = isThrottled v"
  "raf_callbacks (adjustWindowHeight page v) = raf_callbacks v"
  by (simp_all add: adjustWindowHeight_def Let_def split: option.splits)







lemma request_fields [simp]:
  "isThrottled (requestWindowResize page h v) = isThrottled v"
  "raf_callbacks (requestWindowResize page h v) = raf_callbacks v"
  by (simp_all add: requestWindowResize_def)

lemma observer_fields [simp]:
  "isThrottled (resize_observer_callback page cur entries v) = isThrottled v"
  "raf_callbacks (resize_observer_callback page cur entries v) = raf_callbacks v"
  by (induction entries arbitrary: v) simp_all












lemma ceiling_example: "\<lceil>1801 / 2 :: rat\<rceil> = 901"
  by (rule ceiling_unique) simp_all

lemma resize_observer_sends_bare_height:
  "sent_requests (ask_run (connectedCallback True initial_ask_view)
       [ResizeObserved example_page 400 [1801 / 2, 100]]) = [BareHeight 901]
   \<and> sent_requests (ask_run (connectedCallback False initial_ask_view)
       [ResizeObserved example_page 400 [1801 / 2, 100]]) = []"
  by (simp add: ask_run_def initial_ask_view_def example_page_def connectedCallback_def
        requestWindowResize_def js_ceil_def ceiling_example)

section \<open>Properties of the window manager\<close>

lemma pool_modify_keys [simp]: "map fst (pool_modify n f p) = map fst p"
  by (induction p) auto

lemma hide_fields [simp]:
  "isDestroyed (hide w) = isDestroyed w" "w_visible (hide w) = False"
  by (simp_all add: hide_def isDestroyed_def)

lemma show_fields [simp]:
  "isDestroyed (showInactive w) = isDestroyed w" "w_visible (showInactive w) = True"
  by (simp_all add: showInactive_def isDestroyed_def)

lemma pool_get_hide_recorded:
  "pool_get (hide_recorded n p) m =
     (case pool_get p m of
        None \<Rightarrow> None
      | Some w \<Rightarrow> Some (if m = n \<and> n \<noteq> ''header'' \<and> \<not> isDestroyed w then hide w else w))"
  by (auto simp: hide_recorded_def pool_get_modify split: option.splits)

lemma pool_get_show_recorded:
  "pool_get (show_recorded n p) m =
     (case pool_get p m of
        None \<Rightarrow> None
      | Some w \<Rightarrow> Some (if m = n \<and> \<not> isDestroyed w then showInactive w else w))"
  by (auto simp: show_recorded_def pool_get_modify split: option.splits)

lemma visible_after_hide_recorded:
  "visible_windows (hide_recorded n p) = visible_windows p - (if n = ''header'' then {} else {n})"
  by (auto simp: visible_windows_def pool_get_hide_recorded split: option.splits if_splits)

lemma visible_after_show_recorded:
  "visible_windows (show_recorded n p) =
     visible_windows p \<union> {m. m = n \<and> (\<exists>w. pool_get p n = Some w \<and> \<not> isDestroyed w)}"
  by (auto simp: visible_windows_def pool_get_show_recorded split: option.splits if_splits)

lemma live_hide_recorded [simp]: "live_names (hide_recorded n p) = live_names p"
  by (auto simp: live_names_def pool_get_hide_recorded split: option.splits if_splits)

lemma live_show_recorded [simp]: "live_names (show_recorded n p) = live_names p"
  by (auto simp: live_names_def pool_get_show_recorded split: option.splits if_splits)

lemma visible_after_fold_hide:
  "visible_windows (fold hide_recorded ns p) = visible_windows p - (set ns - {''header''})"
  by (induction ns arbitrary: p) (auto simp: visible_after_hide_recorded)

lemma live_fold_hide [simp]: "live_names (fold hide_recorded ns p) = live_names p"
  by (induction ns arbitrary: p) auto

lemma visible_after_fold_show:
  "visible_windows (fold show_recorded ns p) = visible_windows p \<union> (set ns \<inter> live_names p)"
proof (induction ns arbitrary: p)
  case Nil show ?case by simp
next
  case (Cons n ns)
  have "{m. m = n \<and> (\<exists>w. pool_get p n = Some w \<and> \<not> isDestroyed w)} = {n} \<inter> live_names p"
    by (auto simp: live_names_def)
  then show ?case by (auto simp: Cons.IH visible_after_show_recorded)
qed

lemma visible_after_modify_hide:
  "visible_windows (pool_modify n hide p) = visible_windows p - {n}"
  by (auto simp: visible_windows_def pool_get_modify split: if_splits)

lemma live_modify_hide [simp]: "live_names (pool_modify n hide p) = live_names p"
  by (auto simp: live_names_def pool_get_modify split: if_splits)

lemma visible_subset_live: "visible_windows p \<subseteq> live_names p"
  by (auto simp: visible_windows_def live_names_def)

lemma recorded_set:
  assumes "distinct (map fst p)"
  shows "set (map fst (filter (\<lambda>(n, w). \<not> isDestroyed w \<and> w_visible w) p)) = visible_windows p"
  using assms by (force simp: visible_windows_def pool_get_def)


lemma toggle_hide:
  assumes d: "distinct (map fst (windowPool s))"
    and h: "pool_get (windowPool s) ''header'' = Some h" "\<not> isDestroyed h" "w_visible h"
    and tv: "tv \<noteq> Some True"
  shows "\<exists>s1. changeAllWindowsVisibility s tv = Inr s1
           \<and> set (lastVisibleWindows s1) = visible_windows (windowPool s)
           \<and> visible_windows (windowPool s1) = {}
           \<and> live_names (windowPool s1) = live_names (windowPool s)
           \<and> (\<exists>h1. pool_get (windowPool s1) ''header'' = Some h1 \<and> \<not> isDestroyed h1 \<and> \<not> w_visible h1)"
proof -
  let ?rec = "map fst (filter (\<lambda>(n, w). \<not> isDestroyed w \<and> w_visible w) (windowPool s))"
  let ?p1 = "fold hide_recorded ?rec (windowPool s)"
  let ?s1 = "s\<lparr>lastVisibleWindows := ?rec, windowPool := pool_modify ''header'' hide ?p1\<rparr>"
  have iv: "isVisible h = Inr True" using h by (simp add: isVisible_def isDestroyed_def)
  have r: "changeAllWindowsVisibility s tv = Inr ?s1"
    using tv by (simp add: changeAllWindowsVisibility_def h(1) iv Let_def)
  have rs: "set ?rec = visible_windows (windowPool s)" by (rule recorded_set[OF d])
  have p1: "windowPool ?s1 = pool_modify ''header'' hide ?p1" by simp
  have v: "visible_windows (windowPool ?s1) = {}"
    unfolding p1 visible_after_modify_hide visible_after_fold_hide rs by auto
  have l: "live_names (windowPool ?s1) = live_names (windowPool s)" by simp
  have "''header'' \<in> live_names (windowPool ?s1)"
    unfolding l using h by (auto simp: live_names_def)
  then obtain h1 where h1: "pool_get (windowPool ?s1) ''header'' = Some h1" "\<not> isDestroyed h1"
    by (auto simp: live_names_def)
  have "\<not> w_visible h1" using v h1 by (auto simp: visible_windows_def)
  with r rs v l h1 show ?thesis by (intro exI[of _ ?s1]) auto
qed

lemma toggle_show:
  assumes h: "pool_get (windowPool s) ''header'' = Some h" "\<not> isDestroyed h" "\<not> w_visible h"
    and tv: "tv \<noteq> Some False"
  shows "\<exists>s2. changeAllWindowsVisibility s tv = Inr s2
           \<and> visible_windows (windowPool s2)
               = visible_windows (windowPool s) \<union> (set (lastVisibleWindows s) \<inter> live_names (windowPool s))"
proof -
  have iv: "isVisible h = Inr False" using h by (simp add: isVisible_def isDestroyed_def)
  show ?thesis
    using tv by (simp add: changeAllWindowsVisibility_def h(1) iv visible_after_fold_show)
qed

lemma toggle_same:
  assumes h: "pool_get (windowPool s) ''header'' = Some h" "\<not> isDestroyed h"
  shows "changeAllWindowsVisibility s (Some (w_visible h)) = Inr s"
  using h by (simp add: changeAllWindowsVisibility_def isVisible_def isDestroyed_def)

text \<open>
  C10. Let the pool have one window per name and a live header. If the header is visible
  and the target is not the boolean \<open>true\<close>, \<open>changeAllWindowsVisibility\<close> records in
  \<open>lastVisibleWindows\<close> exactly the names of the visible live windows and leaves no live
  window visible; a following call whose target is not the boolean \<open>false\<close> makes exactly
  the recorded windows visible again. A call whose target is the boolean equal to the
  header's visibility returns the state unchanged.
\<close>

theorem toggle_all_windows_round_trip:
  assumes "distinct (map fst (windowPool s))"
    and "pool_get (windowPool s) ''header'' = Some h" and "\<not> isDestroyed h"
  shows "(w_visible h \<and> tv \<noteq> Some True \<longrightarrow>
           (\<exists>s1. changeAllWindowsVisibility s tv = Inr s1
              \<and> set (lastVisibleWindows s1) = visible_windows (windowPool s)
              \<and> visible_windows (windowPool s1) = {}
              \<and> (\<forall>tv2. tv2 \<noteq> Some False \<longrightarrow>
                   (\<exists>s2. changeAllWindowsVisibility s1 tv2 = Inr s2
                       \<and> visible_windows (windowPool s2) = set (lastVisibleWindows s1)))))
       \<and> (tv = Some (w_visible h) \<longrightarrow> changeAllWindowsVisibility s tv = Inr s)"
proof (intro conjI impI)
  assume a: "w_visible h \<and> tv \<noteq> Some True"
  from toggle_hide[OF assms, of tv] a obtain s1 h1 where
    s1: "changeAllWindowsVisibility s tv = Inr s1"
      "set (lastVisibleWindows s1) = visible_windows (windowPool s)"
      "visible_windows (windowPool s1) = {}"
      "live_names (windowPool s1) = live_names (windowPool s)"
    and h1: "pool_get (windowPool s1) ''header'' = Some h1" "\<not> isDestroyed h1" "\<not> w_visible h1"
    by blast
  have again: "\<exists>s2. changeAllWindowsVisibility s1 tv2 = Inr s2
                \<and> visible_windows (windowPool s2) = set (lastVisibleWindows s1)"
    if "tv2 \<noteq> Some False" for tv2
  proof -
    from toggle_show[OF h1 that] obtain s2 where
      s2: "changeAllWindowsVisibility s1 tv2 = Inr s2"
        "visible_windows (windowPool s2)
           = visible_windows (windowPool s1) \<union> (set (lastVisibleWindows s1) \<inter> live_names (windowPool s1))"
      by blast
    have "set (lastVisibleWindows s1) \<inter> live_names (windowPool s1) = set (lastVisibleWindows s1)"
      using s1(2,4) visible_subset_live[of "windowPool s"] by auto
    with s2 s1(3) show ?thesis by auto
  qed
  with s1 show "\<exists>s1. changeAllWindowsVisibility s tv = Inr s1
              \<and> set (lastVisibleWindows s1) = visible_windows (windowPool s)
              \<and> visible_windows (windowPool s1) = {}
              \<and> (\<forall>tv2. tv2 \<noteq> Some False \<longrightarrow>
                   (\<exists>s2. changeAllWindowsVisibility s1 tv2 = Inr s2
                       \<and> visible_windows (windowPool s2) = set (lastVisibleWindows s1)))"
    by blast
next
  assume "tv = Some (w_visible h)"
  then show "changeAllWindowsVisibility s tv = Inr s"
    using toggle_same[OF assms(2,3)] by simp
qed

text \<open>
  C9. \<open>handleWindowVisibilityRequest\<close> returns the state unchanged (pool with all bounds,
  opacities, always-on-top and mouse-event flags, timers, and calls to the motion engine)
  when the window is not \<open>settings\<close>, is live and already has the requested visibility;
  when no window of that name is in the pool; and when the window of that name is destroyed.
\<close>

theorem visibility_request_noop:
  "(name \<noteq> ''settings'' \<and>
      (\<exists>win. pool_get (windowPool s) name = Some win \<and> \<not> isDestroyed win
             \<and> w_visible win = shouldBeVisible)
      \<longrightarrow> handleWindowVisibilityRequest scr s name shouldBeVisible = Inr s)
   \<and> (pool_get (windowPool s) name = None
      \<longrightarrow> handleWindowVisibilityRequest scr s name shouldBeVisible = Inr s)
   \<and> ((\<exists>win. pool_get (windowPool s) name = Some win \<and> isDestroyed win)
      \<longrightarrow> handleWindowVisibilityRequest scr s name shouldBeVisible = Inr s)"
  by (auto simp: handleWindowVisibilityRequest_def)

theorem toggle_all_windows_round_trip_witness:
  "\<exists>s1. changeAllWindowsVisibility (initial_wm_state example_pool) None = Inr s1
        \<and> set (lastVisibleWindows s1) = visible_windows example_pool
        \<and> visible_windows (windowPool s1) = {}
        \<and> (\<exists>s2. changeAllWindowsVisibility s1 None = Inr s2
                \<and> visible_windows (windowPool s2) = set (lastVisibleWindows s1))"
proof -
  have d: "distinct (map fst (windowPool (initial_wm_state example_pool)))"
    by (simp add: initial_wm_state_def example_pool_def)
  have h: "pool_get (windowPool (initial_wm_state example_pool)) ''header'' = Some example_header"
    by (simp add: initial_wm_state_def example_pool_def pool_get_def)
  have l: "\<not> isDestroyed example_header"
    by (simp add: example_header_def live_window_def isDestroyed_def)
  have v: "w_visible example_header" by (simp add: example_header_def live_window_def)
  from toggle_all_windows_round_trip [OF d h l, of None] v
  obtain s1 where s1: "changeAllWindowsVisibility (initial_wm_state example_pool) None = Inr s1"
      "set (lastVisibleWindows s1) = visible_windows (windowPool (initial_wm_state example_pool))"
      "visible_windows (windowPool s1) = {}"
      "\<forall>tv2. tv2 \<noteq> Some False \<longrightarrow>
         (\<exists>s2. changeAllWindowsVisibility s1 tv2 = Inr s2
              \<and> visible_windows (windowPool s2) = set (lastVisibleWindows s1))"
    by auto
  from s1(4) have "\<exists>s2. changeAllWindowsVisibility s1 None = Inr s2
              \<and> visible_windows (windowPool s2) = set (lastVisibleWindows s1)"
    by simp
  with s1(1,2,3) show ?thesis by (auto simp: initial_wm_state_def)
qed

theorem visibility_request_noop_witness:
  "handleWindowVisibilityRequest example_screen (initial_wm_state example_pool) ''ask'' True
     = Inr (initial_wm_state example_pool)
   \<and> handleWindowVisibilityRequest example_screen (initial_wm_state example_pool) ''shortcut-settings'' True
     = Inr (initial_wm_state example_pool)
   \<and> handleWindowVisibilityRequest example_screen
        (initial_wm_state [(''header'', example_header), (''listen'', destroyed_window)]) ''listen'' True
     = Inr (initial_wm_state [(''header'', example_header), (''listen'', destroyed_window)])"
  using visibility_request_noop [of "''ask''" "initial_wm_state example_pool" True example_screen]
        visibility_request_noop [of "''shortcut-settings''" "initial_wm_state example_pool" True example_screen]
        visibility_request_noop [of "''listen''"
          "initial_wm_state [(''header'', example_header), (''listen'', destroyed_window)]" True
          example_screen]
  by (simp add: initial_wm_state_def example_pool_def pool_get_def live_window_def isDestroyed_def
        destroyed_window_def)

lemma visibility_request_hide_ask:
  "handleWindowVisibilityRequest example_screen (initial_wm_state example_pool) ''ask'' False
     = Inr ((initial_wm_state example_pool)
         \<lparr>motion_calls :=
            [Fade ''ask'' 0 True,
             AnimateWindowPosition ''ask'' \<lparr>rect_x = 0, rect_y = -20, rect_width = 777, rect_height = 250\<rparr>,
             AnimateLayout [''listen'' \<mapsto> \<lparr>rect_x = 520, rect_y = 101, rect_width = 400, rect_height = 300\<rparr>]]\<rparr>)"
  by (simp add: handleWindowVisibilityRequest_def visibility_feature_def initial_wm_state_def
      calculateFeatureWindowLayout_def Let_def anim_offset_def ANIM_OFFSET_Y_def
      place_window_def determineLayoutStrategy_def getCurrentDisplay_def getBounds_def
      example_screen_def example_display_def example_header_def
      getWindowDimensions_def example_pool_def pool_get_def live_window_def isDestroyed_def
      ORIGINAL_WINDOW_DIMENSIONS_def constrainHeight_def truthy_def PAD_def js_round_def floor_half_rat)

text \<open>
  C7. After \<open>setAggressiveFocusMode(false)\<close>, with a visible, unfocused header and no
  focused window in the application, each of the display-metrics-changed, resume,
  unlock-screen, activate and blur paths still arms \<open>restoreFocusIfNeeded\<close>, and its timer
  re-applies always-on-top and focuses the header: the timer tests \<open>shouldMaintainFocus\<close>,
  which nothing ever changes, and not \<open>aggressiveFocusMode\<close>.
\<close>

theorem focus_reasserted_with_aggressive_mode_off:
  "aggressiveFocusMode (setAggressiveFocusMode False (initial_wm_state focus_pool)) = False
   \<and> on_display_metrics_changed (setAggressiveFocusMode False (initial_wm_state focus_pool))
       = Inr (restoreFocusIfNeeded (setAggressiveFocusMode False (initial_wm_state focus_pool)))
   \<and> on_resume (setAggressiveFocusMode False (initial_wm_state focus_pool))
       = Inr (restoreFocusIfNeeded (setAggressiveFocusMode False (initial_wm_state focus_pool)))
   \<and> on_unlock_screen (setAggressiveFocusMode False (initial_wm_state focus_pool))
       = Inr (restoreFocusIfNeeded (setAggressiveFocusMode False (initial_wm_state focus_pool)))
   \<and> on_activate (setAggressiveFocusMode False (initial_wm_state focus_pool))
       = Inr (restoreFocusIfNeeded (setAggressiveFocusMode False (initial_wm_state focus_pool)))
   \<and> on_blur NoFocusedWindow (setAggressiveFocusMode False (initial_wm_state focus_pool))
       = Inr (restoreFocusIfNeeded (setAggressiveFocusMode False (initial_wm_state focus_pool)))
   \<and> pool_get (windowPool (setAggressiveFocusMode False (initial_wm_state focus_pool))) ''header''
       = Some (example_header\<lparr>w_alwaysOnTop := True\<rparr>)
   \<and> w_focused (example_header\<lparr>w_alwaysOnTop := True\<rparr>) = False
   \<and> pool_get (windowPool
         (focusRestoreTimer_fire NoFocusedWindow
            (restoreFocusIfNeeded (setAggressiveFocusMode False (initial_wm_state focus_pool)))))
         ''header''
       = Some (example_header\<lparr>w_alwaysOnTop := True, w_focused := True\<rparr>)"
  by (simp add: setAggressiveFocusMode_def initial_wm_state_def focus_pool_def
        on_display_metrics_changed_def on_resume_def on_unlock_screen_def on_activate_def
        on_blur_def restoreFocusIfHeaderVisible_def restoreFocusIfNeeded_def
        focusRestoreTimer_fire_def pool_get_def isVisible_def isDestroyed_def
        applyAggressiveAlwaysOnTop_def example_header_def live_window_def)


end
